theory Spec2Isabelle
  imports Main
begin

section \<open>Client state store (src/store/playground)\<close>

subsection \<open>Entity types\<close>

text \<open>
  The TypeScript interfaces of the application's type module become records. A
  \<^verbatim>\<open>Date\<close> is the number of milliseconds it holds, an optional field an
  \<open>option\<close>, a union of string literals a datatype. The field \<^verbatim>\<open>id\<close> is
  written \<open>ident\<close> and fields that several interfaces share carry a prefix, since
  record fields are constants of the theory.
\<close>

datatype ImageSource = src_camera | src_gallery | src_import

datatype ClothingCategory =
  cat_top | cat_bottom | cat_dress | cat_outerwear | cat_accessories | cat_shoes
  | cat_full_outfit | cat_shirts | cat_pants | cat_jackets

datatype AvatarPerspective =
  persp_front | persp_back | persp_side_left | persp_side_right | persp_three_quarter

datatype AvatarState = st_clothed | st_base

datatype AnimationType = anim_single_frame | anim_loop | anim_keyframe_sequence

datatype GenerationStatus = idle | pending | processing | completed | failed

datatype BackgroundType = bg_transparent | bg_white | bg_black | bg_studio | bg_custom

datatype Fit = fit_tight | fit_regular | fit_loose | fit_oversized

datatype Length = len_cropped | len_regular | len_long

datatype SourceType = source_avatar | source_tryon

datatype MediaType = media_image | media_video

record BaseEntity =
  ident :: string
  createdAt :: nat
  updatedAt :: nat

record UserPhoto = BaseEntity +
  p_uri :: string
  p_source :: ImageSource
  p_width :: nat
  p_height :: nat
  p_thumbnail :: "string option"

record ClothingParameters =
  fit :: "Fit option"
  length_param :: "Length option"
  color :: "string option"
  pattern :: "string option"
  material :: "string option"
  customParams :: "(string \<times> string) list option"

record ClothingItem = BaseEntity +
  c_name :: string
  c_category :: ClothingCategory
  frontImageUri :: string
  backImageUri :: "string option"
  c_thumbnail :: "string option"
  parameters :: "ClothingParameters option"
  tags :: "string list option"
  isLocal :: "bool option"

record ClothingSet = BaseEntity +
  s_name :: string
  s_items :: "string list"
  s_thumbnail :: "string option"

record Avatar = BaseEntity +
  a_name :: string
  sourcePhotoId :: string
  a_perspective :: AvatarPerspective
  a_state :: AvatarState
  backgroundType :: BackgroundType
  a_imageUri :: string
  a_thumbnail :: "string option"
  a_status :: GenerationStatus
  a_errorMessage :: "string option"

record TryOnResult = BaseEntity +
  avatarId :: string
  clothingItemIds :: "string list"
  t_perspective :: AvatarPerspective
  t_imageUri :: string
  t_thumbnail :: "string option"
  t_status :: GenerationStatus
  t_errorMessage :: "string option"

record AnimationKeyframe =
  frameIndex :: nat
  k_imageUri :: string
  k_perspective :: "AvatarPerspective option"
  k_timestamp :: nat

record AnimationConfig =
  anim_type :: AnimationType
  keyframes :: "AnimationKeyframe list"
  duration :: nat
  fps :: nat
  loop_flag :: bool

record AnimationResult = BaseEntity +
  n_name :: string
  sourceType :: SourceType
  sourceId :: string
  config :: AnimationConfig
  videoUri :: "string option"
  gifUri :: "string option"
  n_status :: GenerationStatus
  n_errorMessage :: "string option"

record HistoryItem =
  h_id :: string
  h_type :: MediaType
  h_uri :: string
  h_thumbnail :: "string option"
  h_timestamp :: nat

text \<open>What \<^verbatim>\<open>addToHistory\<close> receives: a history item without id and timestamp.\<close>

record HistoryInput =
  i_type :: MediaType
  i_uri :: string
  i_thumbnail :: "string option"

subsection \<open>The store's state\<close>

record PlaygroundState =
  photos :: "UserPhoto list"
  selectedPhotoId :: "string option"
  clothingItems :: "ClothingItem list"
  clothingSets :: "ClothingSet list"
  selectedClothingIds :: "string list"
  avatars :: "Avatar list"
  selectedAvatarId :: "string option"
  tryOnResults :: "TryOnResult list"
  selectedTryOnId :: "string option"
  animations :: "AnimationResult list"
  selectedAnimationId :: "string option"
  generationHistory :: "HistoryItem list"
  isLoading :: bool
  currentTab :: string

definition initialState :: PlaygroundState where
  "initialState =
     \<lparr>photos = [], selectedPhotoId = None, clothingItems = [], clothingSets = [],
      selectedClothingIds = [], avatars = [], selectedAvatarId = None,
      tryOnResults = [], selectedTryOnId = None, animations = [],
      selectedAnimationId = None, generationHistory = [], isLoading = False,
      currentTab = ''photos''\<rparr>"

subsection \<open>Store actions\<close>

text \<open>
  An action of the store is a function from the state to the next state. The two
  things an action reads from outside, \<^verbatim>\<open>generateId()\<close> (built from the clock
  and \<^verbatim>\<open>Math.random()\<close>) and \<^verbatim>\<open>new Date()\<close> / \<^verbatim>\<open>Date.now()\<close>,
  are the parameters \<open>new_id\<close> and \<open>now\<close>. An action that returns the new id
  returns it beside the state.
\<close>

definition addClothingItem ::
  "string \<Rightarrow> nat \<Rightarrow> ClothingItem \<Rightarrow> PlaygroundState \<Rightarrow> string \<times> PlaygroundState" where
  \<comment> \<open>The argument has no \<^verbatim>\<open>id\<close>, \<^verbatim>\<open>createdAt\<close>, \<^verbatim>\<open>updatedAt\<close>; the spread
      \<^verbatim>\<open>{...item, id, createdAt: now, updatedAt: now}\<close> sets the three, so whatever
      \<open>item\<close> holds there is overwritten.\<close>
  "addClothingItem new_id now item state =
     (let clothingItem = item\<lparr>ident := new_id, createdAt := now, updatedAt := now\<rparr>
      in (new_id, state\<lparr>clothingItems := clothingItems state @ [clothingItem]\<rparr>))"

definition removeClothingItem :: "string \<Rightarrow> PlaygroundState \<Rightarrow> PlaygroundState" where
  "removeClothingItem i state =
     state\<lparr>clothingItems := filter (\<lambda>item. ident item \<noteq> i) (clothingItems state),
           selectedClothingIds := filter (\<lambda>cid. cid \<noteq> i) (selectedClothingIds state)\<rparr>"

definition selectClothingItem :: "string \<Rightarrow> PlaygroundState \<Rightarrow> PlaygroundState" where
  "selectClothingItem i state =
     state\<lparr>selectedClothingIds :=
       (if i \<in> set (selectedClothingIds state) then selectedClothingIds state
        else selectedClothingIds state @ [i])\<rparr>"

definition deselectClothingItem :: "string \<Rightarrow> PlaygroundState \<Rightarrow> PlaygroundState" where
  "deselectClothingItem i state =
     state\<lparr>selectedClothingIds := filter (\<lambda>cid. cid \<noteq> i) (selectedClothingIds state)\<rparr>"

definition clearClothingSelection :: "PlaygroundState \<Rightarrow> PlaygroundState" where
  "clearClothingSelection state = state\<lparr>selectedClothingIds := []\<rparr>"

text \<open>
  The status updates. \<^verbatim>\<open>imageUri ?? avatar.imageUri\<close> keeps the stored locator when
  the argument is absent; \<^verbatim>\<open>errorMessage: error\<close> stores the argument as it is,
  absent or not.
\<close>

definition updateAvatarStatus ::
  "nat \<Rightarrow> string \<Rightarrow> GenerationStatus \<Rightarrow> string option \<Rightarrow> string option
     \<Rightarrow> PlaygroundState \<Rightarrow> PlaygroundState" where
  "updateAvatarStatus now i status imageUri error state =
     state\<lparr>avatars :=
       map (\<lambda>avatar.
             if ident avatar = i
             then avatar\<lparr>a_status := status,
                         a_imageUri := (case imageUri of Some u \<Rightarrow> u | None \<Rightarrow> a_imageUri avatar),
                         a_errorMessage := error,
                         updatedAt := now\<rparr>
             else avatar)
           (avatars state)\<rparr>"

definition updateTryOnStatus ::
  "nat \<Rightarrow> string \<Rightarrow> GenerationStatus \<Rightarrow> string option \<Rightarrow> string option
     \<Rightarrow> PlaygroundState \<Rightarrow> PlaygroundState" where
  "updateTryOnStatus now i status imageUri error state =
     state\<lparr>tryOnResults :=
       map (\<lambda>result.
             if ident result = i
             then result\<lparr>t_status := status,
                         t_imageUri := (case imageUri of Some u \<Rightarrow> u | None \<Rightarrow> t_imageUri result),
                         t_errorMessage := error,
                         updatedAt := now\<rparr>
             else result)
           (tryOnResults state)\<rparr>"

definition updateAnimationStatus ::
  "nat \<Rightarrow> string \<Rightarrow> GenerationStatus \<Rightarrow> string option \<Rightarrow> string option
     \<Rightarrow> PlaygroundState \<Rightarrow> PlaygroundState" where
  \<comment> \<open>\<^verbatim>\<open>videoUri\<close> is itself optional in the entity, so the merged value is an option.\<close>
  "updateAnimationStatus now i status videoUri' error state =
     state\<lparr>animations :=
       map (\<lambda>anim.
             if ident anim = i
             then anim\<lparr>n_status := status,
                       videoUri := (case videoUri' of Some u \<Rightarrow> Some u | None \<Rightarrow> videoUri anim),
                       n_errorMessage := error,
                       updatedAt := now\<rparr>
             else anim)
           (animations state)\<rparr>"

definition addToHistory ::
  "string \<Rightarrow> nat \<Rightarrow> HistoryInput \<Rightarrow> PlaygroundState \<Rightarrow> string \<times> PlaygroundState" where
  "addToHistory new_id now item state =
     (let historyItem =
            \<lparr>h_id = new_id, h_type = i_type item, h_uri = i_uri item,
             h_thumbnail = i_thumbnail item, h_timestamp = now\<rparr>
      in (new_id,
          state\<lparr>generationHistory := take 50 (historyItem # generationHistory state)\<rparr>))"

definition removeFromHistory :: "string \<Rightarrow> PlaygroundState \<Rightarrow> PlaygroundState" where
  "removeFromHistory i state =
     state\<lparr>generationHistory := filter (\<lambda>h. h_id h \<noteq> i) (generationHistory state)\<rparr>"

definition clearHistory :: "PlaygroundState \<Rightarrow> PlaygroundState" where
  "clearHistory state = state\<lparr>generationHistory := []\<rparr>"

subsection \<open>The persisted part of the state\<close>

text \<open>
  \<^verbatim>\<open>partialize\<close> returns an object with two keys. The object is a record with one
  optional field for every key of the state, \<open>None\<close> where the object has no such
  key, so that what is left out can be read off the result.
\<close>

record PersistedState =
  ps_photos :: "UserPhoto list option"
  ps_selectedPhotoId :: "string option option"
  ps_clothingItems :: "ClothingItem list option"
  ps_clothingSets :: "ClothingSet list option"
  ps_selectedClothingIds :: "string list option"
  ps_avatars :: "Avatar list option"
  ps_selectedAvatarId :: "string option option"
  ps_tryOnResults :: "TryOnResult list option"
  ps_selectedTryOnId :: "string option option"
  ps_animations :: "AnimationResult list option"
  ps_selectedAnimationId :: "string option option"
  ps_generationHistory :: "HistoryItem list option"
  ps_isLoading :: "bool option"
  ps_currentTab :: "string option"

definition noKeys :: PersistedState where
  "noKeys =
     \<lparr>ps_photos = None, ps_selectedPhotoId = None, ps_clothingItems = None,
      ps_clothingSets = None, ps_selectedClothingIds = None, ps_avatars = None,
      ps_selectedAvatarId = None, ps_tryOnResults = None, ps_selectedTryOnId = None,
      ps_animations = None, ps_selectedAnimationId = None, ps_generationHistory = None,
      ps_isLoading = None, ps_currentTab = None\<rparr>"

definition truthy_flag :: "bool option \<Rightarrow> bool" where
  \<comment> \<open>JavaScript truthiness of an optional boolean: \<^verbatim>\<open>undefined\<close> is falsy.\<close>
  "truthy_flag b = (case b of Some v \<Rightarrow> v | None \<Rightarrow> False)"

definition partialize :: "PlaygroundState \<Rightarrow> PersistedState" where
  "partialize state =
     noKeys\<lparr>ps_generationHistory := Some (generationHistory state),
            ps_clothingItems :=
              Some (filter (\<lambda>item. truthy_flag (isLocal item)) (clothingItems state))\<rparr>"

section \<open>JavaScript values used by the client\<close>

text \<open>
  A thrown \<^verbatim>\<open>new Error(message)\<close> is a value \<open>Error message\<close>; a function that can
  throw returns \<open>Inl\<close> of it. A \<^verbatim>\<open>TypeError\<close> that the engine raises is an
  \<^verbatim>\<open>Error\<close> as well, and a handler reads its \<^verbatim>\<open>message\<close> in the same way: it is
  held as an \<open>Error\<close> whose message starts with its name (\<open>type_error_text\<close> below).
  Strings are lists of characters.
\<close>

datatype exn = Error string

fun message_of :: "exn \<Rightarrow> string" where
  "message_of (Error m) = m"

definition startsWith :: "string \<Rightarrow> string \<Rightarrow> bool" where
  "startsWith p s = (take (length p) s = p)"

definition endsWith :: "string \<Rightarrow> string \<Rightarrow> bool" where
  "endsWith p s = (length p \<le> length s \<and> drop (length s - length p) s = p)"

fun split_char :: "char \<Rightarrow> string \<Rightarrow> string list" where
  "split_char c [] = [[]]"
| "split_char c (x # xs) =
     (if x = c then [] # split_char c xs
      else (case split_char c xs of
              [] \<Rightarrow> [[x]]
            | seg # segs \<Rightarrow> (x # seg) # segs))"

definition index_at :: "'a list \<Rightarrow> nat \<Rightarrow> 'a option" where
  \<comment> \<open>\<^verbatim>\<open>xs[i]\<close>: \<^verbatim>\<open>undefined\<close> out of range.\<close>
  "index_at xs i = (if i < length xs then Some (xs ! i) else None)"

fun join :: "string \<Rightarrow> string list \<Rightarrow> string" where
  "join sep [] = []"
| "join sep [x] = x"
| "join sep (x # y # ys) = x @ sep @ join sep (y # ys)"

definition js_or :: "string option \<Rightarrow> string \<Rightarrow> string" where
  \<comment> \<open>\<^verbatim>\<open>a || b\<close> on an optional string: an absent or empty \<^verbatim>\<open>a\<close> is falsy.\<close>
  "js_or a b = (case a of None \<Rightarrow> b | Some x \<Rightarrow> if x = [] then b else x)"

definition digit_char :: "nat \<Rightarrow> char" where
  "digit_char d = ''0123456789'' ! d"

fun show_nat :: "nat \<Rightarrow> string" where
  "show_nat n = (if n < 10 then [digit_char n] else show_nat (n div 10) @ [digit_char (n mod 10)])"

declare show_nat.simps [simp del]

definition show_bool :: "bool \<Rightarrow> string" where
  "show_bool b = (if b then ''true'' else ''false'')"

definition template_null :: "string option \<Rightarrow> string" where
  \<comment> \<open>A nullable string inside a template literal: \<^verbatim>\<open>null\<close> prints as \<^verbatim>\<open>null\<close>.\<close>
  "template_null a = (case a of None \<Rightarrow> ''null'' | Some x \<Rightarrow> x)"

definition type_error_text :: "string \<Rightarrow> string" where
  \<comment> \<open>The message of the \<^verbatim>\<open>TypeError\<close> that reading a property of \<^verbatim>\<open>null\<close> or
      calling what is no function raises. The engine's wording is not part of the
      repository; this stands for it.\<close>
  "type_error_text what = ''TypeError: '' @ what"

fun map_throwing :: "('a \<Rightarrow> string + 'b) \<Rightarrow> 'a list \<Rightarrow> string + 'b list" where
  \<comment> \<open>\<^verbatim>\<open>xs.map(f)\<close> for a callback that may throw (\<open>Inl\<close>): the first throw ends it.\<close>
  "map_throwing f [] = Inr []"
| "map_throwing f (x # xs) =
     (case f x of
        Inl t \<Rightarrow> Inl t
      | Inr y \<Rightarrow> (case map_throwing f xs of Inl t \<Rightarrow> Inl t | Inr ys \<Rightarrow> Inr (y # ys)))"

section \<open>The device and the remote service\<close>

text \<open>
  What the client acts on, as one record: the module-level \<^verbatim>\<open>apiConfig\<close>, the
  clock, the cache directory and the files of \<^verbatim>\<open>expo-file-system\<close>, a log of the
  \<^verbatim>\<open>fetch\<close> requests and of the downloads issued so far, and how the outside
  answers (the three generation endpoints, the hosts that images are downloaded from,
  the paths that reject a write). A file is held as the base64 text of its bytes.
  A number that the client only prints (a seed, a duration) is held as its
  JavaScript rendering.
\<close>

record ApiConfig =
  baseUrl :: string
  apiKey :: string

datatype part = FilePart string string string | Field string
  \<comment> \<open>\<open>FilePart uri type name\<close> is the object \<^verbatim>\<open>createFileObject\<close> builds.\<close>

record request =
  url :: string
  headers :: "(string \<times> string) list"
  form :: "(string \<times> part) list"

text \<open>
  An entry of a \<^verbatim>\<open>detail\<close> array in the shape the callbacks declare,
  \<^verbatim>\<open>{ msg?: string; loc?: string[] }\<close>.
\<close>

record ValidationError =
  loc :: "string list option"
  msg :: "string option"
  json_text :: string
  \<comment> \<open>\<open>json_text\<close> is \<^verbatim>\<open>JSON.stringify(e)\<close>, the entry as the body spells it.\<close>

text \<open>
  A body need not have the declared shape. A property of a parsed object as the client
  reads it is absent, or a value with its truthiness and with the text that a template
  literal and the \<^verbatim>\<open>Error\<close> constructor print for it. A \<^verbatim>\<open>loc\<close> is missing
  (\<^verbatim>\<open>undefined\<close> or \<^verbatim>\<open>null\<close>, where \<^verbatim>\<open>?.\<close> stops), an array, held as the texts
  \<^verbatim>\<open>join\<close> prints for its elements, or a value without a \<^verbatim>\<open>join\<close> to call. An entry
  of a \<^verbatim>\<open>detail\<close> array is \<^verbatim>\<open>null\<close>, or any other value with its \<^verbatim>\<open>loc\<close>, its
  \<^verbatim>\<open>msg\<close> and its JSON text.
\<close>

datatype js_value = Absent | Value bool string

datatype loc_value = LocMissing | LocArray "string list" | LocNoJoin

datatype raw_entry = NullEntry | RawEntry loc_value js_value string

text \<open>
  What reading \<^verbatim>\<open>error.detail\<close> gives: an array whose entries all have the declared
  shape, a string, an array with entries of any kind, a \<^verbatim>\<open>TypeError\<close> because the
  body is \<^verbatim>\<open>null\<close>, or anything else (no such property, or a value that is neither
  an array nor a string). A body that is a number, a string, a boolean or an array has no
  \<^verbatim>\<open>detail\<close> and no \<^verbatim>\<open>message\<close>.
\<close>

datatype Detail =
  DetailArray "ValidationError list" | DetailString string | DetailOther
  | DetailRaw "raw_entry list" | DetailOfNull

record ErrorJson =
  detail :: Detail
  message :: js_value

text \<open>
  A response: its status line and its body, read twice as the client does. On the
  error path the body is parsed as an error object (\<open>error_body\<close>, \<open>None\<close> when it is
  not JSON); on the success path \<^verbatim>\<open>response.json()\<close> is returned as the declared
  interface (\<open>payload\<close>, \<open>None\<close> when the body is not JSON). The parsed error body is
  any JSON value, held as the client reads it: what \<^verbatim>\<open>error.detail\<close> gives and what
  \<^verbatim>\<open>error.message\<close> gives.
\<close>

record 'a response =
  status :: nat
  statusText :: string
  error_body :: "ErrorJson option"
  payload :: "'a option"

definition ok :: "('a, 'b) response_scheme \<Rightarrow> bool" where
  "ok r = (200 \<le> status r \<and> status r \<le> 299)"

datatype 'a fetch_outcome = NetworkFailure string | Response "'a response"

datatype download_outcome = DownloadFails string | Downloaded nat string
  \<comment> \<open>\<open>Downloaded status body\<close>: the download resolved and the body was saved.\<close>

record Meta =
  model :: string
  provider :: string
  latency_ms :: "nat option"

record AvatarGenerationRequest =
  selfie_b64 :: string
  posture_b64 :: string
  background :: "string option"
  keep_clothes :: "bool option"

record AvatarResponse =
  ar_image_b64 :: string
  ar_width :: nat
  ar_height :: nat
  ar_meta :: "Meta option"

record TryOnGenerationRequest =
  avatar_b64 :: string
  clothes_b64 :: "string list"
  compose :: "bool option"
  tq_seed :: "string option"

record TryOnResponse =
  tr_image_b64 :: string
  clothing_composite_b64 :: "string option"
  tr_meta :: "Meta option"

record VideoLoopRequest =
  vq_image_b64 :: string
  vq_mode :: "string option"
  vq_seconds :: "string option"
  vq_seed :: "string option"

record VideoLoopResponse =
  video_b64 :: string
  first_frame_b64 :: string
  duration_seconds :: nat
  vr_width :: nat
  vr_height :: nat
  vr_mode :: string
  vr_meta :: "Meta option"

record world =
  apiConfig :: ApiConfig
  clock :: nat
  cacheDirectory :: "string option"
  files :: "string \<rightharpoonup> string"
  unwritable :: "string \<Rightarrow> bool"
  requests :: "request list"
  downloads :: "string list"
  avatar_server :: "request \<Rightarrow> AvatarResponse fetch_outcome"
  tryon_server :: "request \<Rightarrow> TryOnResponse fetch_outcome"
  video_server :: "request \<Rightarrow> VideoLoopResponse fetch_outcome"
  remote_files :: "string \<Rightarrow> download_outcome"

subsection \<open>Computations that act on the device and may throw\<close>

type_synonym 'a io = "world \<Rightarrow> (exn + 'a) \<times> world"

definition io_return :: "'a \<Rightarrow> 'a io" where
  "io_return x = (\<lambda>w. (Inr x, w))"

definition io_throw :: "exn \<Rightarrow> 'a io" where
  "io_throw e = (\<lambda>w. (Inl e, w))"

definition io_bind :: "'a io \<Rightarrow> ('a \<Rightarrow> 'b io) \<Rightarrow> 'b io" where
  \<comment> \<open>\<^verbatim>\<open>const x = await m; ...\<close>: a throw of \<open>m\<close> skips the rest.\<close>
  "io_bind m f = (\<lambda>w. case m w of (Inl e, w') \<Rightarrow> (Inl e, w') | (Inr x, w') \<Rightarrow> f x w')"

definition io_catch :: "'a io \<Rightarrow> (exn \<Rightarrow> 'a io) \<Rightarrow> 'a io" where
  \<comment> \<open>\<^verbatim>\<open>try { m } catch (e) { h }\<close>\<close>
  "io_catch m h = (\<lambda>w. case m w of (Inl e, w') \<Rightarrow> h e w' | (Inr x, w') \<Rightarrow> (Inr x, w'))"

fun io_all :: "'a io list \<Rightarrow> 'a list io" where
  \<comment> \<open>\<^verbatim>\<open>Promise.all\<close> over conversions that were all started: each runs to its end,
      here one after the other, and the first failure in the order of the list is the one
      thrown. The source starts them together: there the rejection first in time is
      thrown, and two downloads started in the same millisecond share the name of their
      temporary file. Neither is modelled.\<close>
  "io_all [] = io_return []"
| "io_all (m # ms) =
     (\<lambda>w. case m w of
        (Inl e, w') \<Rightarrow> (Inl e, snd (io_all ms w'))
      | (Inr x, w') \<Rightarrow>
          (case io_all ms w' of
             (Inl e, w'') \<Rightarrow> (Inl e, w'')
           | (Inr xs, w'') \<Rightarrow> (Inr (x # xs), w'')))"

definition Date_now :: "nat io" where
  "Date_now = (\<lambda>w. (Inr (clock w), w))"

definition get_apiConfig :: "ApiConfig io" where
  "get_apiConfig = (\<lambda>w. (Inr (apiConfig w), w))"

definition get_cacheDirectory :: "string option io" where
  "get_cacheDirectory = (\<lambda>w. (Inr (cacheDirectory w), w))"

text \<open>
  The calls into \<^verbatim>\<open>expo-file-system\<close>. The text of the library's own errors is not
  part of the repository; \<open>write_error\<close> and \<open>read_error\<close> stand for it, as does the
  message of \<open>json_of\<close> below. \<^verbatim>\<open>Date.now()\<close> reads the clock, which no call moves.
\<close>

definition write_error :: "string \<Rightarrow> exn" where
  "write_error path = Error (''Could not write '' @ path)"

definition read_error :: "string \<Rightarrow> exn" where
  "read_error path = Error (''Could not read '' @ path)"

definition writeAsStringAsync :: "string \<Rightarrow> string \<Rightarrow> unit io" where
  "writeAsStringAsync path data =
     (\<lambda>w. if unwritable w path then (Inl (write_error path), w)
          else (Inr (), w\<lparr>files := (files w)(path \<mapsto> data)\<rparr>))"

record FileInfo =
  fi_exists :: bool
  fi_size :: nat

definition getInfoAsync :: "string \<Rightarrow> FileInfo io" where
  \<comment> \<open>The size is zero exactly for an empty base64 text; no larger size is read.\<close>
  "getInfoAsync path =
     (\<lambda>w. (Inr (case files w path of
                   None \<Rightarrow> \<lparr>fi_exists = False, fi_size = 0\<rparr>
                 | Some data \<Rightarrow> \<lparr>fi_exists = True, fi_size = length data\<rparr>), w))"

definition readAsStringAsync :: "string \<Rightarrow> string io" where
  "readAsStringAsync path =
     (\<lambda>w. case files w path of None \<Rightarrow> (Inl (read_error path), w) | Some data \<Rightarrow> (Inr data, w))"

definition deleteAsync :: "string \<Rightarrow> unit io" where
  \<comment> \<open>Called with \<^verbatim>\<open>{ idempotent: true }\<close>: a missing file is not an error.\<close>
  "deleteAsync path = (\<lambda>w. (Inr (), w\<lparr>files := (files w)(path := None)\<rparr>))"

record DownloadResult =
  dl_status :: nat
  dl_uri :: string

definition downloadAsync :: "string \<Rightarrow> string \<Rightarrow> DownloadResult io" where
  \<comment> \<open>A download that resolves has saved the body at the target, whatever the
      status; one that rejects has saved nothing.\<close>
  "downloadAsync uri target =
     (\<lambda>w. let w' = w\<lparr>downloads := downloads w @ [uri]\<rparr> in
          if unwritable w target then (Inl (write_error target), w')
          else (case remote_files w uri of
                  DownloadFails m \<Rightarrow> (Inl (Error m), w')
                | Downloaded st body \<Rightarrow>
                    (Inr \<lparr>dl_status = st, dl_uri = target\<rparr>,
                     w'\<lparr>files := (files w')(target \<mapsto> body)\<rparr>)))"

text \<open>\<^verbatim>\<open>fetch\<close>, once per endpoint since each answers with its own interface.\<close>

definition fetch_avatar :: "request \<Rightarrow> AvatarResponse response io" where
  "fetch_avatar rq =
     (\<lambda>w. let w' = w\<lparr>requests := requests w @ [rq]\<rparr> in
          case avatar_server w rq of
            NetworkFailure m \<Rightarrow> (Inl (Error m), w')
          | Response r \<Rightarrow> (Inr r, w'))"

definition fetch_tryon :: "request \<Rightarrow> TryOnResponse response io" where
  "fetch_tryon rq =
     (\<lambda>w. let w' = w\<lparr>requests := requests w @ [rq]\<rparr> in
          case tryon_server w rq of
            NetworkFailure m \<Rightarrow> (Inl (Error m), w')
          | Response r \<Rightarrow> (Inr r, w'))"

definition fetch_video :: "request \<Rightarrow> VideoLoopResponse response io" where
  "fetch_video rq =
     (\<lambda>w. let w' = w\<lparr>requests := requests w @ [rq]\<rparr> in
          case video_server w rq of
            NetworkFailure m \<Rightarrow> (Inl (Error m), w')
          | Response r \<Rightarrow> (Inr r, w'))"

definition json_of :: "('a, 'b) response_scheme \<Rightarrow> 'a io" where
  \<comment> \<open>\<^verbatim>\<open>response.json()\<close> on the success path; it rejects when the body is not JSON.\<close>
  "json_of r = (case payload r of None \<Rightarrow> io_throw (Error ''JSON Parse error'') | Some p \<Rightarrow> io_return p)"

definition truthy_or :: "js_value \<Rightarrow> string \<Rightarrow> string" where
  \<comment> \<open>\<^verbatim>\<open>v || d\<close>, printed.\<close>
  "truthy_or v d = (case v of Absent \<Rightarrow> d | Value t x \<Rightarrow> if t then x else d)"

definition template_text :: "js_value \<Rightarrow> string" where
  \<comment> \<open>\<^verbatim>\<open>${v}\<close>: an absent property prints as \<^verbatim>\<open>undefined\<close>.\<close>
  "template_text v = (case v of Absent \<Rightarrow> ''undefined'' | Value t x \<Rightarrow> x)"

definition joined_loc :: "loc_value \<Rightarrow> string + string option" where
  \<comment> \<open>\<^verbatim>\<open>e.loc?.join('.')\<close> on an entry that is not \<^verbatim>\<open>null\<close>: \<^verbatim>\<open>undefined\<close> for a
      missing \<^verbatim>\<open>loc\<close>, a \<^verbatim>\<open>TypeError\<close> for one without \<^verbatim>\<open>join\<close>.\<close>
  "joined_loc l =
     (case l of
        LocMissing \<Rightarrow> Inr None
      | LocArray p \<Rightarrow> Inr (Some (join ''.'' p))
      | LocNoJoin \<Rightarrow> Inl (type_error_text ''e.loc?.join is not a function''))"

section \<open>Remote generation client (src/services/api)\<close>

text \<open>The \<^verbatim>\<open>console.log\<close> lines of the source have no effect on what follows and are left out.\<close>

definition base64ToTempFile :: "string \<Rightarrow> string \<Rightarrow> string io" where
  \<comment> \<open>\<^verbatim>\<open>!base64Data\<close> and \<^verbatim>\<open>!tempDir\<close> hold for an absent and for an empty string.\<close>
  "base64ToTempFile base64 filename =
     (let base64Data =
            (if CHR '','' \<in> set base64 then index_at (split_char CHR '','' base64) 1
             else Some base64)
      in case base64Data of
           None \<Rightarrow> io_throw (Error (''Invalid base64 data for '' @ filename))
         | Some payload64 \<Rightarrow>
             if payload64 = [] then io_throw (Error (''Invalid base64 data for '' @ filename))
             else io_bind get_cacheDirectory (\<lambda>tempDir.
               case tempDir of
                 None \<Rightarrow> io_throw (Error ''Cache directory not available'')
               | Some dir \<Rightarrow>
                   if dir = [] then io_throw (Error ''Cache directory not available'')
                   else
                     let normalizedDir = (if endsWith ''/'' dir then dir else dir @ ''/'');
                         filePath = normalizedDir @ filename
                     in io_bind (writeAsStringAsync filePath payload64) (\<lambda>_.
                        io_bind (getInfoAsync filePath) (\<lambda>fileInfo.
                          if \<not> fi_exists fileInfo
                          then io_throw (Error (''Failed to create temp file: '' @ filePath))
                          else io_return filePath))))"

definition createFileObject :: "string \<Rightarrow> string \<Rightarrow> string \<Rightarrow> part" where
  "createFileObject uri name type =
     (let finalUri =
            (if \<not> startsWith ''file://'' uri \<and> \<not> startsWith ''content://'' uri
                \<and> \<not> startsWith ''http'' uri
             then ''file://'' @ uri else uri)
      in FilePart finalUri type name)"

definition auth_headers :: "ApiConfig \<Rightarrow> (string \<times> string) list" where
  \<comment> \<open>\<^verbatim>\<open>if (apiConfig.apiKey) headers['api-key'] = apiConfig.apiKey\<close>\<close>
  "auth_headers cfg = (if apiKey cfg \<noteq> [] then [(''api-key'', apiKey cfg)] else [])"

subsection \<open>Avatar\<close>

definition avatarEntryText :: "ValidationError \<Rightarrow> string" where
  \<comment> \<open>The template literal is never empty, so the \<^verbatim>\<open>|| JSON.stringify(e)\<close> that
      follows it is never taken; it is kept as written.\<close>
  "avatarEntryText e =
     js_or (Some (js_or (map_option (join ''.'') (loc e)) ''field'' @ '': ''
                   @ (case msg e of None \<Rightarrow> ''undefined'' | Some m \<Rightarrow> m)))
           (json_text e)"

definition avatarRawText :: "raw_entry \<Rightarrow> string + string" where
  \<comment> \<open>The same callback on an entry of any kind; \<open>Inl\<close> is the \<^verbatim>\<open>TypeError\<close> it throws.\<close>
  "avatarRawText e =
     (case e of
        NullEntry \<Rightarrow> Inl (type_error_text ''cannot read loc of null'')
      | RawEntry l m text \<Rightarrow>
          (case joined_loc l of
             Inl t \<Rightarrow> Inl t
           | Inr location \<Rightarrow>
               Inr (js_or (Some (js_or location ''field'' @ '': '' @ template_text m)) text)))"

definition avatarErrorMessage :: "('a, 'b) response_scheme \<Rightarrow> string" where
  \<comment> \<open>The message of what the call throws on a response that is not ok: the
      normalised message, or the \<^verbatim>\<open>TypeError\<close> raised while normalising.\<close>
  "avatarErrorMessage r =
     (let error = (case error_body r of
                     None \<Rightarrow> \<lparr>detail = DetailString (statusText r), message = Absent\<rparr>
                   | Some e \<Rightarrow> e)
      in case detail error of
           DetailArray es \<Rightarrow> join ''; '' (map avatarEntryText es)
         | DetailString d \<Rightarrow> d
         | DetailOther \<Rightarrow> ''Avatar generation failed''
         | DetailRaw es \<Rightarrow>
             (case map_throwing avatarRawText es of Inl t \<Rightarrow> t | Inr texts \<Rightarrow> join ''; '' texts)
         | DetailOfNull \<Rightarrow> type_error_text ''cannot read detail of null'')"

definition generateAvatar :: "AvatarGenerationRequest \<Rightarrow> AvatarResponse io" where
  "generateAvatar rq =
     io_bind Date_now (\<lambda>t1.
     io_bind (base64ToTempFile (selfie_b64 rq) (''selfie_'' @ show_nat t1 @ ''.png'')) (\<lambda>selfieUri.
     io_bind Date_now (\<lambda>t2.
     io_bind (base64ToTempFile (posture_b64 rq) (''posture_'' @ show_nat t2 @ ''.png'')) (\<lambda>postureUri.
     io_bind get_apiConfig (\<lambda>cfg.
       let formData =
             [(''selfie'', createFileObject selfieUri ''selfie.png'' ''image/png''),
              (''posture'', createFileObject postureUri ''posture.png'' ''image/png''),
              (''background'', Field (case background rq of None \<Rightarrow> ''studio'' | Some b \<Rightarrow> b)),
              (''keep_clothes'',
                 Field (show_bool (case keep_clothes rq of None \<Rightarrow> False | Some k \<Rightarrow> k)))]
       in io_bind (fetch_avatar \<lparr>url = baseUrl cfg @ ''/generate/avatar'',
                                 headers = auth_headers cfg, form = formData\<rparr>) (\<lambda>response.
            if \<not> ok response then io_throw (Error (avatarErrorMessage response))
            else json_of response))))))"

subsection \<open>Try-on\<close>

definition tryOnEntryText :: "ValidationError \<Rightarrow> string" where
  "tryOnEntryText e =
     (let location = js_or (map_option (join ''.'') (loc e)) ''unknown'';
          message = js_or (msg e) ''unknown error''
      in location @ '': '' @ message)"

definition tryOnRawText :: "raw_entry \<Rightarrow> string + string" where
  \<comment> \<open>The same callback on an entry of any kind; \<open>Inl\<close> is the \<^verbatim>\<open>TypeError\<close> it throws.\<close>
  "tryOnRawText e =
     (case e of
        NullEntry \<Rightarrow> Inl (type_error_text ''cannot read loc of null'')
      | RawEntry l m text \<Rightarrow>
          (case joined_loc l of
             Inl t \<Rightarrow> Inl t
           | Inr joined \<Rightarrow>
               (let location = js_or joined ''unknown'';
                    message = truthy_or m ''unknown error''
                in Inr (location @ '': '' @ message))))"

definition tryOnErrorMessage :: "ErrorJson \<Rightarrow> string" where
  \<comment> \<open>The message of what the call throws on a parsed body: the normalised message,
      or the \<^verbatim>\<open>TypeError\<close> raised while normalising.\<close>
  "tryOnErrorMessage error =
     (case detail error of
        DetailArray es \<Rightarrow> join ''; '' (map tryOnEntryText es)
      | DetailString d \<Rightarrow> d
      | DetailOther \<Rightarrow> truthy_or (message error) ''Try-on generation failed''
      | DetailRaw es \<Rightarrow>
          (case map_throwing tryOnRawText es of Inl t \<Rightarrow> t | Inr texts \<Rightarrow> join ''; '' texts)
      | DetailOfNull \<Rightarrow> type_error_text ''cannot read detail of null'')"

definition tryOnFailureMessage :: "('a, 'b) response_scheme \<Rightarrow> string" where
  \<comment> \<open>The message thrown on a response that is not ok: \<^verbatim>\<open>JSON.parse\<close> of the body
      text fails, or the parsed error is normalised.\<close>
  "tryOnFailureMessage r =
     (case error_body r of
        None \<Rightarrow> ''Server error: '' @ show_nat (status r) @ '' '' @ statusText r
      | Some error \<Rightarrow> tryOnErrorMessage error)"

fun prepareClothes :: "nat \<Rightarrow> string list \<Rightarrow> (string \<times> part) list \<Rightarrow> (string \<times> part) list io" where
  \<comment> \<open>The \<^verbatim>\<open>for\<close> loop over \<^verbatim>\<open>request.clothes_b64\<close>, from \<open>index\<close> on.\<close>
  "prepareClothes index [] formData = io_return formData"
| "prepareClothes index (cloth # rest) formData =
     io_bind Date_now (\<lambda>t.
     io_bind (base64ToTempFile cloth (''cloth_'' @ show_nat index @ ''_'' @ show_nat t @ ''.png''))
       (\<lambda>clothUri.
          prepareClothes (index + 1) rest
            (formData @ [(''clothes'',
               createFileObject clothUri (''cloth_'' @ show_nat index @ ''.png'') ''image/png'')])))"

definition prepareTryOnForm :: "TryOnGenerationRequest \<Rightarrow> (string \<times> part) list io" where
  \<comment> \<open>The body of the \<^verbatim>\<open>try\<close> block that fills the form.\<close>
  "prepareTryOnForm rq =
     io_bind Date_now (\<lambda>t.
     io_bind (base64ToTempFile (avatar_b64 rq) (''avatar_'' @ show_nat t @ ''.png'')) (\<lambda>avatarUri.
     io_bind (prepareClothes 0 (clothes_b64 rq)
                [(''avatar'', createFileObject avatarUri ''avatar.png'' ''image/png'')]) (\<lambda>formData.
       io_return
         (formData
          @ [(''compose'', Field (show_bool (case compose rq of None \<Rightarrow> True | Some c \<Rightarrow> c)))]
          @ (case tq_seed rq of None \<Rightarrow> [] | Some sd \<Rightarrow> [(''seed'', Field sd)])))))"

definition generateTryOn :: "TryOnGenerationRequest \<Rightarrow> TryOnResponse io" where
  "generateTryOn rq =
     (if avatar_b64 rq = [] then io_throw (Error ''Avatar image is required'')
      else if clothes_b64 rq = [] then io_throw (Error ''At least one clothing item is required'')
      else
        io_bind (io_catch (prepareTryOnForm rq)
                   (\<lambda>fileError. io_throw (Error (''Failed to prepare files: '' @ message_of fileError))))
          (\<lambda>formData.
        io_bind get_apiConfig (\<lambda>cfg.
        io_bind (fetch_tryon \<lparr>url = baseUrl cfg @ ''/generate/tryon'',
                              headers = auth_headers cfg, form = formData\<rparr>) (\<lambda>response.
          if \<not> ok response then io_throw (Error (tryOnFailureMessage response))
          else json_of response))))"

subsection \<open>Video loop\<close>

definition videoEntryText :: "ValidationError \<Rightarrow> string" where
  "videoEntryText e = js_or (msg e) (json_text e)"

definition videoRawText :: "raw_entry \<Rightarrow> string + string" where
  \<comment> \<open>The same callback on an entry of any kind; it reads no \<^verbatim>\<open>loc\<close>.\<close>
  "videoRawText e =
     (case e of
        NullEntry \<Rightarrow> Inl (type_error_text ''cannot read msg of null'')
      | RawEntry l m text \<Rightarrow> Inr (truthy_or m text))"

definition videoErrorMessage :: "('a, 'b) response_scheme \<Rightarrow> string" where
  \<comment> \<open>The message of what the call throws on a response that is not ok: the
      normalised message, or the \<^verbatim>\<open>TypeError\<close> raised while normalising.\<close>
  "videoErrorMessage r =
     (let error = (case error_body r of
                     None \<Rightarrow> \<lparr>detail = DetailString (statusText r), message = Absent\<rparr>
                   | Some e \<Rightarrow> e)
      in case detail error of
           DetailArray es \<Rightarrow> join ''; '' (map videoEntryText es)
         | DetailString d \<Rightarrow> d
         | DetailOther \<Rightarrow> ''Video loop generation failed''
         | DetailRaw es \<Rightarrow>
             (case map_throwing videoRawText es of Inl t \<Rightarrow> t | Inr texts \<Rightarrow> join ''; '' texts)
         | DetailOfNull \<Rightarrow> type_error_text ''cannot read detail of null'')"

definition generateVideoLoop :: "VideoLoopRequest \<Rightarrow> VideoLoopResponse io" where
  "generateVideoLoop rq =
     io_bind Date_now (\<lambda>t.
     io_bind (base64ToTempFile (vq_image_b64 rq) (''image_'' @ show_nat t @ ''.png'')) (\<lambda>imageUri.
     io_bind get_apiConfig (\<lambda>cfg.
       let formData =
             [(''image'', createFileObject imageUri ''image.png'' ''image/png''),
              (''mode'', Field (case vq_mode rq of None \<Rightarrow> ''360'' | Some m \<Rightarrow> m)),
              (''seconds'', Field (case vq_seconds rq of None \<Rightarrow> ''4'' | Some sc \<Rightarrow> sc))]
             @ (case vq_seed rq of None \<Rightarrow> [] | Some sd \<Rightarrow> [(''seed'', Field sd)])
       in io_bind (fetch_video \<lparr>url = baseUrl cfg @ ''/generate/videoloop'',
                                headers = auth_headers cfg, form = formData\<rparr>) (\<lambda>response.
            if \<not> ok response then io_throw (Error (videoErrorMessage response))
            else json_of response))))"

subsection \<open>Media codec\<close>

definition imageUriToBase64 :: "string \<Rightarrow> string io" where
  "imageUriToBase64 uri =
     (if startsWith ''data:'' uri then
        io_return (js_or (index_at (split_char CHR '','' uri) 1) uri)
      else if startsWith ''file://'' uri \<or> startsWith ''/'' uri then readAsStringAsync uri
      else
        io_catch
          (io_bind get_cacheDirectory (\<lambda>dir.
           io_bind Date_now (\<lambda>t.
             let tempFile = template_null dir @ ''temp_'' @ show_nat t @ ''.png''
             in io_bind (downloadAsync uri tempFile) (\<lambda>downloadResult.
                  if dl_status downloadResult \<noteq> 200
                  then io_throw (Error (''Failed to download image: ''
                                         @ show_nat (dl_status downloadResult)))
                  else
                    io_bind (readAsStringAsync (dl_uri downloadResult)) (\<lambda>base64.
                    io_bind (deleteAsync (dl_uri downloadResult)) (\<lambda>_.
                      io_return base64))))))
          (\<lambda>error. io_throw (Error (''Failed to convert image: '' @ message_of error))))"

definition base64ToDataUri :: "string \<Rightarrow> string \<Rightarrow> string" where
  "base64ToDataUri base64 mimeType = ''data:'' @ mimeType @ '';base64,'' @ base64"

section \<open>Generation pipeline of the try-on screen (app/(tabs)/index)\<close>

text \<open>
  The screen's React state that \<^verbatim>\<open>handleGenerate\<close> reads and sets, the store, the
  device, the alerts shown and the errors written with \<^verbatim>\<open>console.error\<close>.
  \<open>next_id\<close> is what \<^verbatim>\<open>generateId()\<close> returns on its next call. The sheet position
  \<^verbatim>\<open>translateY\<close> is the snap point it is sprung to.
\<close>

datatype snap = SNAP_TOP | SNAP_BOTTOM

record AvatarItem =
  ai_id :: string
  ai_image :: string
  ai_isDefault :: "bool option"
  ai_isGenerating :: "bool option"

record DisplayItem =
  d_id :: string
  d_image :: string
  d_backImage :: "string option"
  d_category :: string
  d_isLocal :: "bool option"

record app =
  device :: world
  store :: PlaygroundState
  next_id :: string
  screen_avatars :: "AvatarItem list"
  screen_selectedAvatarId :: string
  shirts :: "DisplayItem list"
  trousers :: "DisplayItem list"
  jackets :: "DisplayItem list"
  selectedShirt :: "string option"
  selectedTrousers :: "string option"
  selectedJacket :: "string option"
  isGenerating :: bool
  generationMode :: MediaType
  resultUri :: "string option"
  resultType :: MediaType
  translateY :: snap
  alerts :: "(string \<times> string) list"
  console_errors :: "exn list"

definition canGenerate :: "app \<Rightarrow> bool" where
  "canGenerate a = (selectedShirt a \<noteq> None \<or> selectedTrousers a \<noteq> None \<or> selectedJacket a \<noteq> None)"

definition find_selected :: "string option \<Rightarrow> DisplayItem list \<Rightarrow> DisplayItem option" where
  \<comment> \<open>\<^verbatim>\<open>items.find(i => i.id === selected)\<close>; no id equals \<^verbatim>\<open>null\<close>.\<close>
  "find_selected selected items =
     (case selected of None \<Rightarrow> None | Some sel \<Rightarrow> find (\<lambda>i. d_id i = sel) items)"

definition gatherInputs :: "app \<Rightarrow> TryOnGenerationRequest io" where
  \<comment> \<open>Steps 1 and 2: the avatar and the selected garments, each converted to base64.\<close>
  "gatherInputs a =
     (case find (\<lambda>x. ai_id x = screen_selectedAvatarId a) (screen_avatars a) of
        None \<Rightarrow> io_throw (Error ''No avatar selected'')
      | Some selectedAvatar \<Rightarrow>
          io_bind (imageUriToBase64 (ai_image selectedAvatar)) (\<lambda>avatarB64.
            let selectedItems =
                  List.map_filter (\<lambda>item. item)
                    [find_selected (selectedShirt a) (shirts a),
                     find_selected (selectedTrousers a) (trousers a),
                     find_selected (selectedJacket a) (jackets a)]
            in io_bind (io_all (map (\<lambda>item. imageUriToBase64 (d_image item)) selectedItems))
                 (\<lambda>clothesB64.
                    io_return \<lparr>avatar_b64 = avatarB64, clothes_b64 = clothesB64,
                               compose = None, tq_seed = None\<rparr>)))"

definition saveVideo :: "VideoLoopResponse \<Rightarrow> (string \<times> MediaType \<times> string option) io" where
  \<comment> \<open>After the video call: the thumbnail, the video written to the cache, the check
      of the written file. \<^verbatim>\<open>split(',')[1]\<close> is defined whenever the text has a comma.\<close>
  "saveVideo videoResult =
     (let videoThumbnail =
            (if first_frame_b64 videoResult \<noteq> []
             then Some (base64ToDataUri (first_frame_b64 videoResult) ''image/png'')
             else None)
      in io_bind Date_now (\<lambda>t.
         io_bind get_cacheDirectory (\<lambda>dir.
           let videoFileName = ''vto_video_'' @ show_nat t @ ''.mp4'';
               videoFilePath = template_null dir @ videoFileName;
               base64Data =
                 (if CHR '','' \<in> set (video_b64 videoResult)
                  then js_or (index_at (split_char CHR '','' (video_b64 videoResult)) 1) []
                  else video_b64 videoResult)
           in io_bind (writeAsStringAsync videoFilePath base64Data) (\<lambda>_.
              io_bind (getInfoAsync videoFilePath) (\<lambda>fileInfo.
                if \<not> fi_exists fileInfo \<or> fi_size fileInfo = 0
                then io_throw (Error ''Video file was not saved correctly'')
                else io_return (videoFilePath, media_video, videoThumbnail))))))"

definition videoStep :: "TryOnResponse \<Rightarrow> (string \<times> MediaType \<times> string option) io" where
  \<comment> \<open>Step 4, taken in video mode.\<close>
  "videoStep tryOnResult =
     io_bind (generateVideoLoop \<lparr>vq_image_b64 = tr_image_b64 tryOnResult, vq_mode = Some ''360'',
                                 vq_seconds = None, vq_seed = None\<rparr>)
       saveVideo"

definition pipeline :: "app \<Rightarrow> (string \<times> MediaType \<times> string option) io" where
  \<comment> \<open>Steps 1 to 4 of the \<^verbatim>\<open>try\<close> block: what it leaves in \<^verbatim>\<open>finalUri\<close>,
      \<^verbatim>\<open>finalType\<close> and \<^verbatim>\<open>videoThumbnail\<close>.\<close>
  "pipeline a =
     io_bind (gatherInputs a) (\<lambda>rq.
     io_bind (generateTryOn rq) (\<lambda>tryOnResult.
       if generationMode a = media_video then videoStep tryOnResult
       else io_return (base64ToDataUri (tr_image_b64 tryOnResult) ''image/png'', media_image, None)))"

definition handleGenerate :: "app \<Rightarrow> app" where
  \<comment> \<open>Step 5 and the \<^verbatim>\<open>catch\<close> and \<^verbatim>\<open>finally\<close> blocks follow the pipeline.\<close>
  "handleGenerate a =
     (if \<not> canGenerate a \<or> isGenerating a then a
      else
        let a1 = a\<lparr>isGenerating := True, translateY := SNAP_BOTTOM\<rparr> in
        (case pipeline a (device a1) of
           (Inr (finalUri, finalType, videoThumbnail), w) \<Rightarrow>
             a1\<lparr>device := w,
                resultUri := Some finalUri,
                resultType := finalType,
                store := snd (addToHistory (next_id a1) (clock w)
                                \<lparr>i_type = finalType, i_uri = finalUri, i_thumbnail = videoThumbnail\<rparr>
                                (store a1)),
                translateY := SNAP_BOTTOM,
                isGenerating := False\<rparr>
         | (Inl error, w) \<Rightarrow>
             a1\<lparr>device := w,
                console_errors := console_errors a1 @ [error],
                alerts := alerts a1 @ [(''Error'', ''Failed to generate result. Please try again.'')],
                translateY := SNAP_TOP,
                isGenerating := False\<rparr>))"

definition video_calls :: "world \<Rightarrow> nat" where
  \<comment> \<open>How many of the requests issued so far went to the video-loop endpoint.\<close>
  "video_calls w =
     length (filter (\<lambda>rq. url rq = baseUrl (apiConfig w) @ ''/generate/videoloop'') (requests w))"

section \<open>Runs of store actions and example states\<close>

text \<open>A run of \<^verbatim>\<open>addToHistory\<close> calls, each with the id and the time it draws.\<close>

fun addAllToHistory :: "(string \<times> nat \<times> HistoryInput) list \<Rightarrow> PlaygroundState \<Rightarrow> PlaygroundState" where
  "addAllToHistory [] state = state"
| "addAllToHistory ((new_id, now, item) # calls) state =
     addAllToHistory calls (snd (addToHistory new_id now item state))"

text \<open>The history item that \<^verbatim>\<open>addToHistory\<close> builds from its argument.\<close>

definition historyItemOf :: "string \<Rightarrow> nat \<Rightarrow> HistoryInput \<Rightarrow> HistoryItem" where
  "historyItemOf new_id now item =
     \<lparr>h_id = new_id, h_type = i_type item, h_uri = i_uri item,
      h_thumbnail = i_thumbnail item, h_timestamp = now\<rparr>"

text \<open>The store actions that write \<^verbatim>\<open>selectedClothingIds\<close>, and a run of them.\<close>

datatype selection_op = SelectItem string | DeselectItem string | RemoveItem string | ClearSelection

fun applySelection :: "selection_op \<Rightarrow> PlaygroundState \<Rightarrow> PlaygroundState" where
  "applySelection (SelectItem i) state = selectClothingItem i state"
| "applySelection (DeselectItem i) state = deselectClothingItem i state"
| "applySelection (RemoveItem i) state = removeClothingItem i state"
| "applySelection ClearSelection state = clearClothingSelection state"

fun runSelection :: "selection_op list \<Rightarrow> PlaygroundState \<Rightarrow> PlaygroundState" where
  "runSelection [] state = state"
| "runSelection (x # xs) state = runSelection xs (applySelection x state)"

text \<open>A full history of fifty items, newest first, and an item to add.\<close>

definition fiftyItems :: "HistoryItem list" where
  "fiftyItems =
     map (\<lambda>n. \<lparr>h_id = replicate n CHR ''x'', h_type = media_image, h_uri = ''u'',
               h_thumbnail = None, h_timestamp = n\<rparr>) (rev [1..<51])"

definition fullState :: PlaygroundState where
  "fullState = initialState\<lparr>generationHistory := fiftyItems\<rparr>"

definition newInput :: HistoryInput where
  "newInput = \<lparr>i_type = media_video, i_uri = ''v'', i_thumbnail = Some ''t''\<rparr>"

text \<open>Two avatars, the first one failed with an error message.\<close>

definition failedAvatar :: Avatar where
  "failedAvatar =
     \<lparr>ident = ''a1'', createdAt = 1, updatedAt = 2, a_name = ''Me'', sourcePhotoId = ''p1'',
      a_perspective = persp_front, a_state = st_base, backgroundType = bg_studio,
      a_imageUri = ''old.png'', a_thumbnail = None, a_status = failed,
      a_errorMessage = Some ''boom''\<rparr>"

definition otherAvatar :: Avatar where
  "otherAvatar =
     \<lparr>ident = ''a2'', createdAt = 3, updatedAt = 4, a_name = ''You'', sourcePhotoId = ''p2'',
      a_perspective = persp_back, a_state = st_clothed, backgroundType = bg_white,
      a_imageUri = ''you.png'', a_thumbnail = None, a_status = completed,
      a_errorMessage = None\<rparr>"

definition avatarState :: PlaygroundState where
  "avatarState = initialState\<lparr>avatars := [failedAvatar, otherAvatar]\<rparr>"

section \<open>Notions used in the proofs\<close>

text \<open>
  \<open>fs_only w w'\<close>: between \<open>w\<close> and \<open>w'\<close> nothing but the files and the download log
  has changed; in particular no request was sent. A computation is local when every
  run of it is such a change.
\<close>

definition fs_only :: "world \<Rightarrow> world \<Rightarrow> bool" where
  "fs_only w w' =
     (apiConfig w' = apiConfig w \<and> clock w' = clock w \<and> cacheDirectory w' = cacheDirectory w
      \<and> unwritable w' = unwritable w \<and> requests w' = requests w
      \<and> avatar_server w' = avatar_server w \<and> tryon_server w' = tryon_server w
      \<and> video_server w' = video_server w \<and> remote_files w' = remote_files w)"

definition local_io :: "'a io \<Rightarrow> bool" where
  "local_io m = (\<forall>w. fs_only w (snd (m w)))"

text \<open>
  What a generation call returns once \<^verbatim>\<open>fetch\<close> has answered, given the message
  it builds for a response that is not ok; the device after a request was sent; the
  request each call builds around its form.
\<close>

definition outcome_of :: "('a response \<Rightarrow> string) \<Rightarrow> 'a fetch_outcome \<Rightarrow> exn + 'a" where
  "outcome_of failureMessage out =
     (case out of
        NetworkFailure m \<Rightarrow> Inl (Error m)
      | Response r \<Rightarrow>
          if \<not> ok r then Inl (Error (failureMessage r))
          else (case payload r of None \<Rightarrow> Inl (Error ''JSON Parse error'') | Some p \<Rightarrow> Inr p))"

definition sent :: "world \<Rightarrow> request \<Rightarrow> world" where
  "sent w rq = w\<lparr>requests := requests w @ [rq]\<rparr>"

definition tryon_request :: "world \<Rightarrow> (string \<times> part) list \<Rightarrow> request" where
  "tryon_request w fd =
     \<lparr>url = baseUrl (apiConfig w) @ ''/generate/tryon'', headers = auth_headers (apiConfig w), form = fd\<rparr>"

definition avatar_request :: "world \<Rightarrow> (string \<times> part) list \<Rightarrow> request" where
  "avatar_request w fd =
     \<lparr>url = baseUrl (apiConfig w) @ ''/generate/avatar'', headers = auth_headers (apiConfig w), form = fd\<rparr>"

definition video_request :: "world \<Rightarrow> (string \<times> part) list \<Rightarrow> request" where
  "video_request w fd =
     \<lparr>url = baseUrl (apiConfig w) @ ''/generate/videoloop'', headers = auth_headers (apiConfig w), form = fd\<rparr>"

text \<open>
  An entry of the declared shape, as an entry of any kind: on such entries the two
  readings of an array agree.
\<close>

definition shaped :: "ValidationError \<Rightarrow> raw_entry" where
  "shaped v =
     RawEntry (case loc v of None \<Rightarrow> LocMissing | Some p \<Rightarrow> LocArray p)
              (case msg v of None \<Rightarrow> Absent | Some m \<Rightarrow> Value (m \<noteq> []) m)
              (json_text v)"

section \<open>The error message as the specification words it\<close>

text \<open>
  Following the specification's words, for comparison with the client: a list of
  field-level validation errors gives the entries \<^verbatim>\<open><field path>: <message>\<close>
  separated by \<^verbatim>\<open>; \<close>, a single string reason is used verbatim, a body that does
  not parse gives \<^verbatim>\<open><status code> <status text>\<close>. The specification says nothing
  about any other body.
\<close>

definition spec_message :: "('a, 'b) response_scheme \<Rightarrow> string option" where
  "spec_message r =
     (case error_body r of
        None \<Rightarrow> Some (show_nat (status r) @ '' '' @ statusText r)
      | Some e \<Rightarrow>
          (case detail e of
             DetailArray es \<Rightarrow>
               Some (join ''; ''
                 (map (\<lambda>v. join ''.'' (case loc v of None \<Rightarrow> [] | Some p \<Rightarrow> p) @ '': ''
                           @ (case msg v of None \<Rightarrow> [] | Some m \<Rightarrow> m)) es))
           | DetailString d \<Rightarrow> Some d
           | _ \<Rightarrow> None))"

section \<open>Example devices, requests and screens\<close>

text \<open>
  A device with no network, the two error responses of the examples (a validation error
  with status 422 and a body that is not JSON with status 500), and one request for each
  generation call.
\<close>

definition offline :: world where
  "offline =
     \<lparr>apiConfig = \<lparr>baseUrl = ''http://api'', apiKey = ''openvto-dev''\<rparr>,
      clock = 0, cacheDirectory = Some ''/c/'', files = Map.empty,
      unwritable = (\<lambda>_. False), requests = [], downloads = [],
      avatar_server = (\<lambda>_. NetworkFailure ''offline''),
      tryon_server = (\<lambda>_. NetworkFailure ''offline''),
      video_server = (\<lambda>_. NetworkFailure ''offline''),
      remote_files = (\<lambda>_. DownloadFails ''offline'')\<rparr>"

definition resp422 :: "'a response" where
  \<open>resp422 =
     \<lparr>status = 422, statusText = ''Unprocessable Entity'',
      error_body =
        Some \<lparr>detail = DetailArray [\<lparr>loc = Some [''clothes''], msg = Some ''too short'',
                                     json_text = ''{"loc":["clothes"],"msg":"too short"}''\<rparr>],
              message = Absent\<rparr>,
      payload = None\<rparr>\<close>

definition resp500 :: "'a response" where
  "resp500 =
     \<lparr>status = 500, statusText = ''Internal Server Error'', error_body = None, payload = None\<rparr>"

definition tryOnRq :: TryOnGenerationRequest where
  "tryOnRq = \<lparr>avatar_b64 = ''QUJD'', clothes_b64 = [''REVG''], compose = None, tq_seed = None\<rparr>"

definition avatarRq :: AvatarGenerationRequest where
  "avatarRq = \<lparr>selfie_b64 = ''QUJD'', posture_b64 = ''REVG'', background = None, keep_clothes = None\<rparr>"

definition videoRq :: VideoLoopRequest where
  "videoRq = \<lparr>vq_image_b64 = ''QUJD'', vq_mode = Some ''360'', vq_seconds = None, vq_seed = None\<rparr>"

text \<open>
  Error responses outside the declared shape: the body \<^verbatim>\<open>null\<close>; a \<^verbatim>\<open>detail\<close> with
  an entry whose \<^verbatim>\<open>loc\<close> is a string and with a \<^verbatim>\<open>null\<close> entry; a \<^verbatim>\<open>detail\<close>
  whose path holds a number and whose second entry has the message \<^verbatim>\<open>0\<close> and no path.
\<close>

definition respNull :: "'a response" where
  "respNull =
     \<lparr>status = 400, statusText = ''Bad Request'',
      error_body = Some \<lparr>detail = DetailOfNull, message = Absent\<rparr>, payload = None\<rparr>"






text \<open>A host that answers a download with status 404, and one that answers with 200.\<close>

definition cdn404 :: world where
  "cdn404 = offline\<lparr>remote_files := (\<lambda>_. Downloaded 404 ''PGh0bWw+'')\<rparr>"

definition cdn200 :: world where
  "cdn200 = offline\<lparr>remote_files := (\<lambda>_. Downloaded 200 ''QUJD'')\<rparr>"

text \<open>
  A screen in video mode with the default avatar and one shirt selected, both held as
  data URIs; a device on which the try-on call is refused, and one on which the try-on
  call succeeds and the video call fails, with the device as the two calls leave it.
\<close>

definition okTryOn :: "TryOnResponse response" where
  "okTryOn =
     \<lparr>status = 200, statusText = ''OK'', error_body = None,
      payload = Some \<lparr>tr_image_b64 = ''R0hJ'', clothing_composite_b64 = None, tr_meta = None\<rparr>\<rparr>"

definition exampleApp :: app where
  "exampleApp =
     \<lparr>device = offline, store = initialState, next_id = ''h1'',
      screen_avatars = [\<lparr>ai_id = ''default-1'', ai_image = ''data:image/png;base64,QUJD'',
                         ai_isDefault = Some True, ai_isGenerating = None\<rparr>],
      screen_selectedAvatarId = ''default-1'',
      shirts = [\<lparr>d_id = ''s1'', d_image = ''data:image/png;base64,REVG'', d_backImage = None,
                 d_category = ''shirts'', d_isLocal = Some True\<rparr>],
      trousers = [], jackets = [],
      selectedShirt = Some ''s1'', selectedTrousers = None, selectedJacket = None,
      isGenerating = False, generationMode = media_video,
      resultUri = None, resultType = media_image, translateY = SNAP_TOP,
      alerts = [], console_errors = []\<rparr>"

definition tryOnFailsApp :: app where
  "tryOnFailsApp = exampleApp\<lparr>device := offline\<lparr>tryon_server := (\<lambda>_. Response resp422)\<rparr>\<rparr>"

definition videoFailsApp :: app where
  "videoFailsApp =
     exampleApp\<lparr>device := offline\<lparr>tryon_server := (\<lambda>_. Response okTryOn),
                                   video_server := (\<lambda>_. Response resp500)\<rparr>\<rparr>"

definition afterTryOn :: world where
  "afterTryOn =
     offline\<lparr>tryon_server := (\<lambda>_. Response okTryOn),
             video_server := (\<lambda>_. Response resp500),
             files := [''/c/avatar_0.png'' \<mapsto> ''QUJD'', ''/c/cloth_0_0.png'' \<mapsto> ''REVG''],
             requests := [\<lparr>url = ''http://api/generate/tryon'',
                           headers = [(''api-key'', ''openvto-dev'')],
                           form = [(''avatar'', FilePart ''file:///c/avatar_0.png'' ''image/png'' ''avatar.png''),
                                   (''clothes'', FilePart ''file:///c/cloth_0_0.png'' ''image/png'' ''cloth_0.png''),
                                   (''compose'', Field ''true'')]\<rparr>]\<rparr>"

definition afterVideo :: world where
  "afterVideo =
     afterTryOn\<lparr>files := (files afterTryOn)(''/c/image_0.png'' \<mapsto> ''R0hJ''),
                requests := requests afterTryOn
                  @ [\<lparr>url = ''http://api/generate/videoloop'',
                       headers = [(''api-key'', ''openvto-dev'')],
                       form = [(''image'', FilePart ''file:///c/image_0.png'' ''image/png'' ''image.png''),
                               (''mode'', Field ''360''), (''seconds'', Field ''4'')]\<rparr>]\<rparr>"

section \<open>Properties of the store\<close>

subsection \<open>The history is bounded and most recent first\<close>

lemma addToHistory_history:
  "generationHistory (snd (addToHistory i t x s)) = take 50 (historyItemOf i t x # generationHistory s)"
  by (simp add: addToHistory_def historyItemOf_def Let_def)

lemma addAllToHistory_length:
  "length (generationHistory s) \<le> 50 \<Longrightarrow> length (generationHistory (addAllToHistory calls s)) \<le> 50"
proof (induction calls arbitrary: s)
  case Nil then show ?case by simp
next
  case (Cons c calls)
  obtain i t x where c: "c = (i, t, x)" by (cases c)
  have "length (generationHistory (snd (addToHistory i t x s))) \<le> 50"
    by (simp add: addToHistory_history)
  from Cons.IH[OF this] show ?case by (simp add: c)
qed

lemma addToHistory_evicts_last:
  assumes "length (generationHistory s) = 50"
  shows "generationHistory (snd (addToHistory i t x s)) = historyItemOf i t x # butlast (generationHistory s)"
  using assms by (simp add: addToHistory_history butlast_conv_take)

lemma addToHistory_oldest_absent:
  assumes "length (generationHistory s) = 50" "distinct (map h_id (generationHistory s))" "i \<notin> set (map h_id (generationHistory s))"
  shows "h_id (last (generationHistory s)) \<notin> set (map h_id (generationHistory (snd (addToHistory i t x s))))"
proof -
  let ?h = "generationHistory s"
  have ne: "?h \<noteq> []" using assms(1) by auto
  then have split: "?h = butlast ?h @ [last ?h]" by simp
  have "distinct (map h_id (butlast ?h) @ [h_id (last ?h)])"
    using assms(2) split by (metis list.simps(8,9) map_append)
  then have a: "h_id (last ?h) \<notin> set (map h_id (butlast ?h))" by simp
  have b: "h_id (last ?h) \<noteq> i" using assms(3) ne by (metis last_in_set last_map list.map_disc_iff)
  show ?thesis using a b by (simp add: addToHistory_evicts_last[OF assms(1)] historyItemOf_def)
qed

text \<open>
  C1. Starting from a history of at most 50 items, the history has at most 50 items after
  any run of \<^verbatim>\<open>addToHistory\<close> calls. From any state, the new item is at index 0 and
  the rest is the old history cut to 49 items; when the old history holds 50 items the
  result is the new item followed by all but the last (oldest) of them, and, ids being
  distinct and the new id fresh, the id of the evicted item is nowhere in the new history.
\<close>

theorem addToHistory_bounded:
  assumes "length (generationHistory s) \<le> 50"
  shows "length (generationHistory (addAllToHistory calls s)) \<le> 50
    \<and> index_at (generationHistory (snd (addToHistory i t x s'))) 0 = Some (historyItemOf i t x)
    \<and> generationHistory (snd (addToHistory i t x s')) = take 50 (historyItemOf i t x # generationHistory s')
    \<and> (length (generationHistory s') = 50 \<longrightarrow>
          generationHistory (snd (addToHistory i t x s')) = historyItemOf i t x # butlast (generationHistory s'))
    \<and> (length (generationHistory s') = 50 \<and> distinct (map h_id (generationHistory s'))
          \<and> i \<notin> set (map h_id (generationHistory s')) \<longrightarrow>
          h_id (last (generationHistory s')) \<notin> set (map h_id (generationHistory (snd (addToHistory i t x s')))))"
proof (intro conjI impI)
  show "length (generationHistory (addAllToHistory calls s)) \<le> 50"
    by (rule addAllToHistory_length[OF assms])
  show "index_at (generationHistory (snd (addToHistory i t x s'))) 0 = Some (historyItemOf i t x)"
    by (simp add: addToHistory_history index_at_def)
  show "generationHistory (snd (addToHistory i t x s')) = take 50 (historyItemOf i t x # generationHistory s')"
    by (rule addToHistory_history)
  show "generationHistory (snd (addToHistory i t x s')) = historyItemOf i t x # butlast (generationHistory s')"
    if "length (generationHistory s') = 50"
    by (rule addToHistory_evicts_last[OF that])
  show "h_id (last (generationHistory s')) \<notin> set (map h_id (generationHistory (snd (addToHistory i t x s'))))"
    if "length (generationHistory s') = 50 \<and> distinct (map h_id (generationHistory s'))
          \<and> i \<notin> set (map h_id (generationHistory s'))"
    using that by (intro addToHistory_oldest_absent) simp_all
qed

lemma fifty_len: "length fiftyItems = 50" by (simp add: fiftyItems_def)
lemma fifty_distinct: "distinct (map h_id fiftyItems)" 
  by (simp add: fiftyItems_def distinct_map inj_on_def comp_def rev_map[symmetric])
lemma fifty_fresh: "''new'' \<notin> set (map h_id fiftyItems)"
proof -
  have "''new'' \<noteq> replicate n CHR ''x''" for n by (cases n) auto
  then show ?thesis by (auto simp: fiftyItems_def)
qed
lemma fifty_last: "last fiftyItems = \<lparr>h_id = ''x'', h_type = media_image, h_uri = ''u'', h_thumbnail = None, h_timestamp = 1\<rparr>"
  by (simp add: fiftyItems_def last_map last_rev)

theorem addToHistory_bounded_witness:
  "length (generationHistory fullState) \<le> 50
   \<and> length (generationHistory fullState) = 50
   \<and> distinct (map h_id (generationHistory fullState))
   \<and> ''new'' \<notin> set (map h_id (generationHistory fullState))
   \<and> length (generationHistory (addAllToHistory [(''new'', 7, newInput), (''newer'', 8, newInput)] fullState)) \<le> 50
   \<and> index_at (generationHistory (snd (addToHistory ''new'' 7 newInput fullState))) 0 = Some (historyItemOf ''new'' 7 newInput)
   \<and> generationHistory (snd (addToHistory ''new'' 7 newInput fullState))
       = historyItemOf ''new'' 7 newInput # butlast (generationHistory fullState)
   \<and> h_id (last (generationHistory fullState)) = ''x''
   \<and> ''x'' \<notin> set (map h_id (generationHistory (snd (addToHistory ''new'' 7 newInput fullState))))"
proof -
  have g: "generationHistory fullState = fiftyItems" by (simp add: fullState_def)
  have h: "length (generationHistory fullState) \<le> 50" by (simp add: g fifty_len)
  have l: "length (generationHistory fullState) = 50" by (simp add: g fifty_len)
  have d: "distinct (map h_id (generationHistory fullState))" by (simp add: g fifty_distinct)
  have f: "''new'' \<notin> set (map h_id (generationHistory fullState))" using fifty_fresh by (simp add: g)
  have la: "h_id (last (generationHistory fullState)) = ''x''" by (simp add: g fifty_last)
  note t = addToHistory_bounded[OF h, of "[(''new'', 7, newInput), (''newer'', 8, newInput)]" "''new''" 7 newInput fullState]
  from t l d f have "h_id (last (generationHistory fullState))
      \<notin> set (map h_id (generationHistory (snd (addToHistory ''new'' 7 newInput fullState))))"
    by blast
  then have x: "''x'' \<notin> set (map h_id (generationHistory (snd (addToHistory ''new'' 7 newInput fullState))))"
    unfolding la .
  from t l h d f la x show ?thesis by blast
qed

subsection \<open>Status updates\<close>

lemma list_all2_map_self: "(\<And>x. P x (f x)) \<Longrightarrow> list_all2 P xs (map f xs)"
  by (simp add: list_all2_map2 list_all2_same)

text \<open>
  C7, as amended. Each of \<^verbatim>\<open>updateAvatarStatus\<close>, \<^verbatim>\<open>updateTryOnStatus\<close> and
  \<^verbatim>\<open>updateAnimationStatus\<close> leaves every entity with another id as it is and every
  other collection and field of the store as it is. In an entity with the given id it
  overwrites the status, the updated timestamp and the error message with the arguments
  (an omitted error message clears the stored one), replaces the output locator only when
  one is supplied, and leaves every other field untouched.
\<close>

theorem status_update_merge:
  "list_all2
     (\<lambda>av av'.
        (ident av \<noteq> i \<longrightarrow> av' = av)
        \<and> (ident av = i \<longrightarrow>
             a_status av' = new_status \<and> updatedAt av' = now \<and> a_errorMessage av' = error
             \<and> a_imageUri av' = (case imageUri of None \<Rightarrow> a_imageUri av | Some u \<Rightarrow> u)
             \<and> av'\<lparr>a_status := a_status av, updatedAt := updatedAt av,
                    a_errorMessage := a_errorMessage av, a_imageUri := a_imageUri av\<rparr> = av))
     (avatars s) (avatars (updateAvatarStatus now i new_status imageUri error s))
   \<and> (updateAvatarStatus now i new_status imageUri error s)\<lparr>avatars := avatars s\<rparr> = s
   \<and> list_all2
     (\<lambda>r r'.
        (ident r \<noteq> i \<longrightarrow> r' = r)
        \<and> (ident r = i \<longrightarrow>
             t_status r' = new_status \<and> updatedAt r' = now \<and> t_errorMessage r' = error
             \<and> t_imageUri r' = (case imageUri of None \<Rightarrow> t_imageUri r | Some u \<Rightarrow> u)
             \<and> r'\<lparr>t_status := t_status r, updatedAt := updatedAt r,
                   t_errorMessage := t_errorMessage r, t_imageUri := t_imageUri r\<rparr> = r))
     (tryOnResults s) (tryOnResults (updateTryOnStatus now i new_status imageUri error s))
   \<and> (updateTryOnStatus now i new_status imageUri error s)\<lparr>tryOnResults := tryOnResults s\<rparr> = s
   \<and> list_all2
     (\<lambda>n n'.
        (ident n \<noteq> i \<longrightarrow> n' = n)
        \<and> (ident n = i \<longrightarrow>
             n_status n' = new_status \<and> updatedAt n' = now \<and> n_errorMessage n' = error
             \<and> videoUri n' = (case imageUri of None \<Rightarrow> videoUri n | Some u \<Rightarrow> Some u)
             \<and> n'\<lparr>n_status := n_status n, updatedAt := updatedAt n,
                   n_errorMessage := n_errorMessage n, videoUri := videoUri n\<rparr> = n))
     (animations s) (animations (updateAnimationStatus now i new_status imageUri error s))
   \<and> (updateAnimationStatus now i new_status imageUri error s)\<lparr>animations := animations s\<rparr> = s"
proof (intro conjI)
  show "(updateAvatarStatus now i new_status imageUri error s)\<lparr>avatars := avatars s\<rparr> = s"
    by (simp add: updateAvatarStatus_def)
  show "(updateTryOnStatus now i new_status imageUri error s)\<lparr>tryOnResults := tryOnResults s\<rparr> = s"
    by (simp add: updateTryOnStatus_def)
  show "(updateAnimationStatus now i new_status imageUri error s)\<lparr>animations := animations s\<rparr> = s"
    by (simp add: updateAnimationStatus_def)
qed (simp_all add: updateAvatarStatus_def updateTryOnStatus_def updateAnimationStatus_def list_all2_map_self)

text \<open>
  The claim as first stated fails: a status update that supplies no error message does
  not leave the stored error message untouched, it removes it.
\<close>

theorem status_update_counterexample:
  "map a_errorMessage (avatars avatarState) = [Some ''boom'', None]
   \<and> map a_errorMessage (avatars (updateAvatarStatus 9 ''a1'' processing None None avatarState)) = [None, None]"
  by (simp add: avatarState_def failedAvatar_def otherAvatar_def updateAvatarStatus_def)

theorem status_update_merge_witness:
  "ident failedAvatar = ''a1'' \<and> ident otherAvatar \<noteq> ''a1''
   \<and> avatars (updateAvatarStatus 9 ''a1'' processing None None avatarState)
       = [failedAvatar\<lparr>a_status := processing, a_errorMessage := None, updatedAt := 9\<rparr>, otherAvatar]
   \<and> (updateAvatarStatus 9 ''a1'' processing None None avatarState)\<lparr>avatars := avatars avatarState\<rparr> = avatarState"
  using status_update_merge[of "''a1''" processing 9 None None avatarState]
  by (simp add: avatarState_def failedAvatar_def otherAvatar_def updateAvatarStatus_def)

subsection \<open>What is persisted\<close>

text \<open>
  C8. The persisted object holds exactly two keys: the generation history as it is, and
  the clothing items whose \<^verbatim>\<open>isLocal\<close> is true, in their order. No other key of the
  state is in it: not the avatars, the try-on results or the animations, not a selection,
  and no clothing item that is not local.
\<close>

theorem partialize_selective:
  "ps_generationHistory (partialize s) = Some (generationHistory s)
   \<and> ps_clothingItems (partialize s) = Some (filter (\<lambda>item. isLocal item = Some True) (clothingItems s))
   \<and> (partialize s)\<lparr>ps_generationHistory := None, ps_clothingItems := None\<rparr> = noKeys
   \<and> ps_avatars (partialize s) = None \<and> ps_tryOnResults (partialize s) = None
   \<and> ps_animations (partialize s) = None
   \<and> ps_selectedPhotoId (partialize s) = None \<and> ps_selectedClothingIds (partialize s) = None
   \<and> ps_selectedAvatarId (partialize s) = None \<and> ps_selectedTryOnId (partialize s) = None
   \<and> ps_selectedAnimationId (partialize s) = None
   \<and> ps_photos (partialize s) = None \<and> ps_clothingSets (partialize s) = None
   \<and> ps_isLoading (partialize s) = None \<and> ps_currentTab (partialize s) = None"
proof -
  have "(\<lambda>item. truthy_flag (isLocal item)) = (\<lambda>item::ClothingItem. isLocal item = Some True)"
    by (auto simp: truthy_flag_def fun_eq_iff split: option.splits)
  then show ?thesis by (simp add: partialize_def noKeys_def)
qed

subsection \<open>Selecting clothing items\<close>

lemma applySelection_distinct:
  "distinct (selectedClothingIds s) \<Longrightarrow> distinct (selectedClothingIds (applySelection x s))"
  by (cases x) (simp_all add: selectClothingItem_def deselectClothingItem_def removeClothingItem_def clearClothingSelection_def)

lemma runSelection_distinct:
  "distinct (selectedClothingIds s) \<Longrightarrow> distinct (selectedClothingIds (runSelection xs s))"
  by (induction xs arbitrary: s) (simp_all add: applySelection_distinct)

text \<open>
  C10. Selecting an id that is already selected leaves the state unchanged, and selecting
  twice is selecting once. A selection without duplicates stays without duplicates under
  any run of select, deselect, remove and clear actions; so it is from the initial state.
\<close>

theorem selectClothingItem_idempotent:
  "(i \<in> set (selectedClothingIds s) \<longrightarrow> selectClothingItem i s = s)
   \<and> selectClothingItem i (selectClothingItem i s) = selectClothingItem i s
   \<and> (distinct (selectedClothingIds s) \<longrightarrow> distinct (selectedClothingIds (runSelection xs s)))
   \<and> distinct (selectedClothingIds (runSelection xs initialState))"
proof (intro conjI impI)
  show "selectClothingItem i s = s" if "i \<in> set (selectedClothingIds s)"
    using that by (simp add: selectClothingItem_def)
  show "selectClothingItem i (selectClothingItem i s) = selectClothingItem i s"
    by (simp add: selectClothingItem_def)
  show "distinct (selectedClothingIds (runSelection xs s))" if "distinct (selectedClothingIds s)"
    by (rule runSelection_distinct[OF that])
  show "distinct (selectedClothingIds (runSelection xs initialState))"
    by (rule runSelection_distinct) (simp add: initialState_def)
qed

theorem selectClothingItem_idempotent_witness:
  "''b'' \<in> set (selectedClothingIds (initialState\<lparr>selectedClothingIds := [''a'', ''b'']\<rparr>))
   \<and> distinct (selectedClothingIds (initialState\<lparr>selectedClothingIds := [''a'', ''b'']\<rparr>))
   \<and> selectClothingItem ''b'' (initialState\<lparr>selectedClothingIds := [''a'', ''b'']\<rparr>)
       = initialState\<lparr>selectedClothingIds := [''a'', ''b'']\<rparr>
   \<and> selectedClothingIds (runSelection [SelectItem ''b'', SelectItem ''c'', DeselectItem ''a'', SelectItem ''c'']
        (initialState\<lparr>selectedClothingIds := [''a'', ''b'']\<rparr>)) = [''b'', ''c'']
   \<and> distinct (selectedClothingIds (runSelection [SelectItem ''b'', SelectItem ''c'', DeselectItem ''a'', SelectItem ''c'']
        (initialState\<lparr>selectedClothingIds := [''a'', ''b'']\<rparr>)))"
  using selectClothingItem_idempotent[of "''b''" "initialState\<lparr>selectedClothingIds := [''a'', ''b'']\<rparr>"
      "[SelectItem ''b'', SelectItem ''c'', DeselectItem ''a'', SelectItem ''c'']"]
  by (simp add: selectClothingItem_def deselectClothingItem_def)

section \<open>Properties of the remote generation client\<close>

subsection \<open>What stays as it is\<close>

lemma fs_only_refl [simp]: "fs_only w w"
  by (simp add: fs_only_def)

lemma fs_only_trans: "fs_only w w' \<Longrightarrow> fs_only w' w'' \<Longrightarrow> fs_only w w''"
  by (simp add: fs_only_def)

lemma local_ioD: "local_io m \<Longrightarrow> m w = (r, w') \<Longrightarrow> fs_only w w'"
  by (metis local_io_def snd_conv)

lemma local_return [simp]: "local_io (io_return x)"
  by (simp add: local_io_def io_return_def)

lemma local_throw [simp]: "local_io (io_throw e)"
  by (simp add: local_io_def io_throw_def)

lemma local_bind: 
  assumes "local_io m" "\<And>x. local_io (f x)" 
  shows "local_io (io_bind m f)"
  unfolding local_io_def
proof
  fix w
  obtain r w' where m: "m w = (r, w')" by (cases "m w")
  have a: "fs_only w w'" by (rule local_ioD[OF assms(1) m])
  show "fs_only w (snd (io_bind m f w))"
  proof (cases r)
    case (Inl e)
    then show ?thesis using a m by (simp add: io_bind_def)
  next
    case (Inr x)
    obtain r2 w2 where f: "f x w' = (r2, w2)" by (cases "f x w'")
    have "fs_only w' w2" by (rule local_ioD[OF assms(2) f])
    then show ?thesis using a m Inr f by (simp add: io_bind_def fs_only_trans[OF a])
  qed
qed

lemma local_catch: 
  assumes "local_io m" "\<And>e. local_io (h e)"
  shows "local_io (io_catch m h)"
  unfolding local_io_def
proof
  fix w
  obtain r w' where m: "m w = (r, w')" by (cases "m w")
  have a: "fs_only w w'" by (rule local_ioD[OF assms(1) m])
  show "fs_only w (snd (io_catch m h w))"
  proof (cases r)
    case (Inr x)
    then show ?thesis using a m by (simp add: io_catch_def)
  next
    case (Inl e)
    obtain r2 w2 where f: "h e w' = (r2, w2)" by (cases "h e w'")
    have "fs_only w' w2" by (rule local_ioD[OF assms(2) f])
    then show ?thesis using a m Inl f by (simp add: io_catch_def fs_only_trans[OF a])
  qed
qed

lemma local_all: "(\<And>m. m \<in> set ms \<Longrightarrow> local_io m) \<Longrightarrow> local_io (io_all ms)"
proof (induction ms)
  case Nil
  then show ?case by simp
next
  case (Cons m ms)
  have lm: "local_io m" and lms: "local_io (io_all ms)" using Cons by simp_all
  show ?case unfolding local_io_def
  proof
    fix w
    obtain r w' where m: "m w = (r, w')" by (cases "m w")
    obtain r2 w2 where a: "io_all ms w' = (r2, w2)" by (cases "io_all ms w'")
    have "fs_only w w'" by (rule local_ioD[OF lm m])
    moreover have "fs_only w' w2" by (rule local_ioD[OF lms a])
    ultimately have "fs_only w w2" by (rule fs_only_trans)
    then show "fs_only w (snd (io_all (m # ms) w))"
      using m a by (cases r; cases r2) simp_all
  qed
qed

lemma local_prims [simp]:
  "local_io Date_now" "local_io get_apiConfig" "local_io get_cacheDirectory"
  "local_io (writeAsStringAsync p d)" "local_io (getInfoAsync p)" "local_io (readAsStringAsync p)"
  "local_io (deleteAsync p)" "local_io (downloadAsync u p)"
  by (simp_all add: local_io_def fs_only_def Date_now_def get_apiConfig_def get_cacheDirectory_def
      writeAsStringAsync_def getInfoAsync_def readAsStringAsync_def deleteAsync_def downloadAsync_def
      Let_def split: option.splits download_outcome.splits)

lemma local_json_of [simp]: "local_io (json_of r)"
  by (simp add: json_of_def split: option.splits)

lemma local_base64ToTempFile [simp]: "local_io (base64ToTempFile b f)"
  unfolding base64ToTempFile_def Let_def
  by (auto split: option.splits intro!: local_bind)

lemma local_imageUriToBase64 [simp]: "local_io (imageUriToBase64 u)"
  unfolding imageUriToBase64_def Let_def
  by (intro local_bind local_catch local_prims local_throw local_return | simp only: if_split [where P = local_io] | rule conjI impI)+

lemma local_prepareClothes [simp]: "local_io (prepareClothes i cs fd)"
  by (induction cs arbitrary: i fd) (auto intro!: local_bind)

lemma local_prepareTryOnForm [simp]: "local_io (prepareTryOnForm rq)"
  unfolding prepareTryOnForm_def by (intro local_bind) simp_all

subsection \<open>A generation call fails locally or sends one request\<close>

lemma generateTryOn_cases:
  assumes "generateTryOn rq w = (res, w')"
  shows "(isl res \<and> fs_only w w')
       \<or> (\<exists>w1 fd. fs_only w w1 \<and> w' = sent w1 (tryon_request w fd)
            \<and> res = outcome_of tryOnFailureMessage (tryon_server w (tryon_request w fd)))"
proof (cases "avatar_b64 rq = [] \<or> clothes_b64 rq = []")
  case True
  then show ?thesis using assms by (auto simp: generateTryOn_def io_throw_def split: if_splits)
next
  case False
  obtain r1 w1 where p: "prepareTryOnForm rq w = (r1, w1)" by (cases "prepareTryOnForm rq w")
  have f1: "fs_only w w1" by (rule local_ioD[OF local_prepareTryOnForm p])
  show ?thesis
  proof (cases r1)
    case (Inl e)
    then show ?thesis using assms False p f1
      by (auto simp: generateTryOn_def io_bind_def io_catch_def io_throw_def)
  next
    case (Inr fd)
    have same: "apiConfig w1 = apiConfig w" "tryon_server w1 = tryon_server w" using f1 by (simp_all add: fs_only_def)
    show ?thesis
      using assms False p f1 Inr same
      apply (intro disjI2)
      apply (rule exI[of _ w1], rule exI[of _ fd])
      apply (auto simp: generateTryOn_def io_bind_def io_catch_def io_throw_def io_return_def get_apiConfig_def fetch_tryon_def
          outcome_of_def json_of_def Let_def sent_def tryon_request_def split: fetch_outcome.splits option.splits)
      done
  qed
qed

lemma generateAvatar_cases:
  assumes "generateAvatar rq w = (res, w')"
  shows "(isl res \<and> fs_only w w')
       \<or> (\<exists>w1 fd. fs_only w w1 \<and> w' = sent w1 (avatar_request w fd)
            \<and> res = outcome_of avatarErrorMessage (avatar_server w (avatar_request w fd)))"
proof -
  let ?prep = "io_bind Date_now (\<lambda>t1.
     io_bind (base64ToTempFile (selfie_b64 rq) (''selfie_'' @ show_nat t1 @ ''.png'')) (\<lambda>selfieUri.
     io_bind Date_now (\<lambda>t2.
     io_bind (base64ToTempFile (posture_b64 rq) (''posture_'' @ show_nat t2 @ ''.png'')) (\<lambda>postureUri.
       io_return (selfieUri, postureUri)))))"
  have lp: "local_io ?prep" by (intro local_bind) simp_all
  obtain r1 w1 where p: "?prep w = (r1, w1)" by (cases "?prep w")
  have f1: "fs_only w w1" by (rule local_ioD[OF lp p])
  have same: "apiConfig w1 = apiConfig w" "avatar_server w1 = avatar_server w" using f1 by (simp_all add: fs_only_def)
  show ?thesis
  proof (cases r1)
    case (Inl e)
    then show ?thesis using assms p f1
      by (auto simp: generateAvatar_def io_bind_def io_throw_def io_return_def split: prod.splits sum.splits)
  next
    case (Inr uris)
    obtain su pu where "uris = (su, pu)" by (cases uris)
    then show ?thesis
      using assms p f1 Inr same
      apply (intro disjI2)
      apply (rule exI[of _ w1])
      apply (rule exI[of _ "[(''selfie'', createFileObject su ''selfie.png'' ''image/png''),
              (''posture'', createFileObject pu ''posture.png'' ''image/png''),
              (''background'', Field (case background rq of None \<Rightarrow> ''studio'' | Some b \<Rightarrow> b)),
              (''keep_clothes'',
                 Field (show_bool (case keep_clothes rq of None \<Rightarrow> False | Some k \<Rightarrow> k)))]"])
      apply (auto simp: generateAvatar_def io_bind_def io_throw_def io_return_def get_apiConfig_def fetch_avatar_def
          outcome_of_def json_of_def Let_def sent_def avatar_request_def split: fetch_outcome.splits option.splits prod.splits sum.splits)
      done
  qed
qed

lemma generateVideoLoop_cases:
  assumes "generateVideoLoop rq w = (res, w')"
  shows "(isl res \<and> fs_only w w')
       \<or> (\<exists>w1 fd. fs_only w w1 \<and> w' = sent w1 (video_request w fd)
            \<and> res = outcome_of videoErrorMessage (video_server w (video_request w fd)))"
proof -
  let ?prep = "io_bind Date_now (\<lambda>t.
     base64ToTempFile (vq_image_b64 rq) (''image_'' @ show_nat t @ ''.png''))"
  have lp: "local_io ?prep" by (intro local_bind) simp_all
  obtain r1 w1 where p: "?prep w = (r1, w1)" by (cases "?prep w")
  have f1: "fs_only w w1" by (rule local_ioD[OF lp p])
  have same: "apiConfig w1 = apiConfig w" "video_server w1 = video_server w" using f1 by (simp_all add: fs_only_def)
  show ?thesis
  proof (cases r1)
    case (Inl e)
    then show ?thesis using assms p f1
      by (auto simp: generateVideoLoop_def io_bind_def io_throw_def io_return_def split: prod.splits sum.splits)
  next
    case (Inr uri)
    then show ?thesis
      using assms p f1 same
      apply (intro disjI2)
      apply (rule exI[of _ w1])
      apply (rule exI[of _ "[(''image'', createFileObject uri ''image.png'' ''image/png''),
              (''mode'', Field (case vq_mode rq of None \<Rightarrow> ''360'' | Some m \<Rightarrow> m)),
              (''seconds'', Field (case vq_seconds rq of None \<Rightarrow> ''4'' | Some sc \<Rightarrow> sc))]
             @ (case vq_seed rq of None \<Rightarrow> [] | Some sd \<Rightarrow> [(''seed'', Field sd)])"])
      apply (auto simp: generateVideoLoop_def io_bind_def io_throw_def io_return_def get_apiConfig_def fetch_video_def
          outcome_of_def json_of_def Let_def sent_def video_request_def split: fetch_outcome.splits option.splits prod.splits sum.splits)
      done
  qed
qed

lemma outcome_not_ok: "\<not> ok r \<Longrightarrow> outcome_of f (Response r) = Inl (Error (f r))"
  by (simp add: outcome_of_def)

lemma generateTryOn_not_ok:
  assumes "\<forall>q. tryon_server w q = Response r" "\<not> ok r"
  shows "(isl (fst (generateTryOn rq w)) \<and> requests (snd (generateTryOn rq w)) = requests w)
       \<or> (fst (generateTryOn rq w) = Inl (Error (tryOnFailureMessage r))
           \<and> requests (snd (generateTryOn rq w)) \<noteq> requests w)"
  using generateTryOn_cases[of rq w "fst (generateTryOn rq w)" "snd (generateTryOn rq w)"] assms
  by (auto simp: outcome_not_ok sent_def fs_only_def)

lemma generateAvatar_not_ok:
  assumes "\<forall>q. avatar_server w q = Response r" "\<not> ok r"
  shows "(isl (fst (generateAvatar rq w)) \<and> requests (snd (generateAvatar rq w)) = requests w)
       \<or> (fst (generateAvatar rq w) = Inl (Error (avatarErrorMessage r))
           \<and> requests (snd (generateAvatar rq w)) \<noteq> requests w)"
  using generateAvatar_cases[of rq w "fst (generateAvatar rq w)" "snd (generateAvatar rq w)"] assms
  by (auto simp: outcome_not_ok sent_def fs_only_def)

lemma generateVideoLoop_not_ok:
  assumes "\<forall>q. video_server w q = Response r" "\<not> ok r"
  shows "(isl (fst (generateVideoLoop rq w)) \<and> requests (snd (generateVideoLoop rq w)) = requests w)
       \<or> (fst (generateVideoLoop rq w) = Inl (Error (videoErrorMessage r))
           \<and> requests (snd (generateVideoLoop rq w)) \<noteq> requests w)"
  using generateVideoLoop_cases[of rq w "fst (generateVideoLoop rq w)" "snd (generateVideoLoop rq w)"] assms
  by (auto simp: outcome_not_ok sent_def fs_only_def)

subsection \<open>The calls on the example devices\<close>

lemmas io_defs = io_bind_def io_catch_def io_throw_def io_return_def Date_now_def get_apiConfig_def
  get_cacheDirectory_def writeAsStringAsync_def getInfoAsync_def readAsStringAsync_def deleteAsync_def
  downloadAsync_def fetch_avatar_def fetch_tryon_def fetch_video_def json_of_def

lemmas js_defs = js_or_def index_at_def startsWith_def endsWith_def show_bool_def template_null_def
  digit_char_def show_nat.simps

lemmas api_defs = generateTryOn_def prepareTryOnForm_def generateAvatar_def generateVideoLoop_def
  base64ToTempFile_def createFileObject_def auth_headers_def imageUriToBase64_def base64ToDataUri_def
  tryOnFailureMessage_def tryOnErrorMessage_def tryOnEntryText_def avatarErrorMessage_def
  avatarEntryText_def videoErrorMessage_def videoEntryText_def ok_def

lemmas example_defs = offline_def resp422_def resp500_def tryOnRq_def avatarRq_def videoRq_def

lemma tryon_422:
  "generateTryOn tryOnRq (offline\<lparr>tryon_server := (\<lambda>_. Response resp422)\<rparr>)
     = (Inl (Error ''clothes: too short''),
        offline\<lparr>tryon_server := (\<lambda>_. Response resp422),
                files := [''/c/avatar_0.png'' \<mapsto> ''QUJD'', ''/c/cloth_0_0.png'' \<mapsto> ''REVG''],
                requests := [\<lparr>url = ''http://api/generate/tryon'',
                              headers = [(''api-key'', ''openvto-dev'')],
                              form = [(''avatar'', FilePart ''file:///c/avatar_0.png'' ''image/png'' ''avatar.png''),
                                      (''clothes'', FilePart ''file:///c/cloth_0_0.png'' ''image/png'' ''cloth_0.png''),
                                      (''compose'', Field ''true'')]\<rparr>]\<rparr>)"
  by (simp add: api_defs io_defs js_defs example_defs Let_def)

lemma tryon_500:
  "fst (generateTryOn tryOnRq (offline\<lparr>tryon_server := (\<lambda>_. Response resp500)\<rparr>))
     = Inl (Error ''Server error: 500 Internal Server Error'')"
  by (simp add: api_defs io_defs js_defs example_defs Let_def)


lemma avatar_500:
  "fst (generateAvatar avatarRq (offline\<lparr>avatar_server := (\<lambda>_. Response resp500)\<rparr>))
     = Inl (Error ''Internal Server Error'')"
  by (simp add: api_defs io_defs js_defs example_defs Let_def)

lemma video_422:
  "fst (generateVideoLoop videoRq (offline\<lparr>video_server := (\<lambda>_. Response resp422)\<rparr>))
     = Inl (Error ''too short'')"
  by (simp add: api_defs io_defs js_defs example_defs Let_def)

lemma video_500:
  "fst (generateVideoLoop videoRq (offline\<lparr>video_server := (\<lambda>_. Response resp500)\<rparr>))
     = Inl (Error ''Internal Server Error'')"
  by (simp add: api_defs io_defs js_defs example_defs Let_def)

lemma spec_422: "spec_message (resp422 :: 'a response) = Some ''clothes: too short''"
  by (simp add: spec_message_def resp422_def)

lemma spec_500: "spec_message (resp500 :: 'a response) = Some ''500 Internal Server Error''"
  by (simp add: spec_message_def resp500_def js_defs)

subsection \<open>Bodies outside the declared shape\<close>

lemma map_throwing_shaped:
  "map_throwing tryOnRawText (map shaped es) = Inr (map tryOnEntryText es)"
  "map_throwing avatarRawText (map shaped es) = Inr (map avatarEntryText es)"
  "map_throwing videoRawText (map shaped es) = Inr (map videoEntryText es)"
  by (induction es)
    (auto simp: shaped_def tryOnRawText_def tryOnEntryText_def avatarRawText_def avatarEntryText_def
      videoRawText_def videoEntryText_def joined_loc_def js_or_def truthy_or_def template_text_def
      split: option.splits)

lemma raw_agrees_with_shaped:
  assumes "error_body r = Some e" "detail e = DetailArray es"
    and "error_body r' = Some e'" "detail e' = DetailRaw (map shaped es)"
  shows "tryOnFailureMessage r' = tryOnFailureMessage r"
    and "avatarErrorMessage r' = avatarErrorMessage r"
    and "videoErrorMessage r' = videoErrorMessage r"
  using assms
  by (simp_all add: tryOnFailureMessage_def tryOnErrorMessage_def avatarErrorMessage_def
      videoErrorMessage_def map_throwing_shaped)







lemma tryon_null:
  "fst (generateTryOn tryOnRq (offline\<lparr>tryon_server := (\<lambda>_. Response respNull)\<rparr>))
     = Inl (Error (type_error_text ''cannot read detail of null''))"
  by (simp add: api_defs io_defs js_defs example_defs respNull_def Let_def)



subsection \<open>Failure is thrown\<close>




subsection \<open>The normalised error message\<close>

lemma wellformed_entries:
  assumes "\<forall>v \<in> set es. \<exists>p m. loc v = Some p \<and> msg v = Some m \<and> join ''.'' p \<noteq> [] \<and> m \<noteq> []"
  shows "map tryOnEntryText es
           = map (\<lambda>v. join ''.'' (case loc v of None \<Rightarrow> [] | Some p \<Rightarrow> p) @ '': ''
                       @ (case msg v of None \<Rightarrow> [] | Some m \<Rightarrow> m)) es"
    and "map avatarEntryText es
           = map (\<lambda>v. join ''.'' (case loc v of None \<Rightarrow> [] | Some p \<Rightarrow> p) @ '': ''
                       @ (case msg v of None \<Rightarrow> [] | Some m \<Rightarrow> m)) es"
  using assms
  by (auto simp: tryOnEntryText_def avatarEntryText_def js_or_def)

text \<open>
  C5, as amended. A generation call that has sent its request and is answered with a
  status that is not a success throws the message it normalises from the response.
  When the error body's \<^verbatim>\<open>detail\<close> is a list, the try-on and the avatar call join
  the entries \<^verbatim>\<open><field path>: <message>\<close> with \<^verbatim>\<open>; \<close>, the path being the
  \<^verbatim>\<open>loc\<close> joined by dots (try-on puts \<^verbatim>\<open>unknown\<close> and \<^verbatim>\<open>unknown error\<close>, avatar
  \<^verbatim>\<open>field\<close> and \<^verbatim>\<open>undefined\<close>, for a missing path or message); for entries with a
  path and a message this is the specification's message. A string \<^verbatim>\<open>detail\<close> is
  used verbatim by all three calls. When the body does not parse, try-on gives
  \<^verbatim>\<open>Server error: <status code> <status text>\<close>, avatar and video loop the status
  text alone.
\<close>

theorem error_message_normalisation:
  "((\<forall>q. tryon_server w q = Response rt) \<and> \<not> ok rt
      \<and> requests (snd (generateTryOn tq w)) \<noteq> requests w \<longrightarrow>
      fst (generateTryOn tq w) = Inl (Error (tryOnFailureMessage rt)))
   \<and> ((\<forall>q. avatar_server w q = Response ra) \<and> \<not> ok ra
      \<and> requests (snd (generateAvatar aq w)) \<noteq> requests w \<longrightarrow>
      fst (generateAvatar aq w) = Inl (Error (avatarErrorMessage ra)))
   \<and> ((\<forall>q. video_server w q = Response rv) \<and> \<not> ok rv
      \<and> requests (snd (generateVideoLoop vq w)) \<noteq> requests w \<longrightarrow>
      fst (generateVideoLoop vq w) = Inl (Error (videoErrorMessage rv)))
   \<and> (error_body r = Some e \<and> detail e = DetailArray es \<longrightarrow>
        tryOnFailureMessage r
          = join ''; '' (map (\<lambda>v. js_or (map_option (join ''.'') (loc v)) ''unknown'' @ '': ''
                                   @ js_or (msg v) ''unknown error'') es)
        \<and> avatarErrorMessage r
          = join ''; '' (map (\<lambda>v. js_or (map_option (join ''.'') (loc v)) ''field'' @ '': ''
                                   @ (case msg v of None \<Rightarrow> ''undefined'' | Some m \<Rightarrow> m)) es))
   \<and> (error_body r = Some e \<and> detail e = DetailArray es
        \<and> (\<forall>v \<in> set es. \<exists>p m. loc v = Some p \<and> msg v = Some m \<and> join ''.'' p \<noteq> [] \<and> m \<noteq> []) \<longrightarrow>
        spec_message r = Some (tryOnFailureMessage r)
        \<and> spec_message r = Some (avatarErrorMessage r))
   \<and> (error_body r = Some e \<and> detail e = DetailString d \<longrightarrow>
        tryOnFailureMessage r = d \<and> avatarErrorMessage r = d \<and> videoErrorMessage r = d
        \<and> spec_message r = Some d)
   \<and> (error_body r = None \<longrightarrow>
        tryOnFailureMessage r = ''Server error: '' @ show_nat (status r) @ '' '' @ statusText r
        \<and> avatarErrorMessage r = statusText r
        \<and> videoErrorMessage r = statusText r)"
proof (intro conjI impI; (elim conjE)?)
  assume a: "\<forall>q. tryon_server w q = Response rt" "\<not> ok rt"
    and b: "requests (snd (generateTryOn tq w)) \<noteq> requests w"
  from generateTryOn_not_ok[OF a, of tq] b
  show "fst (generateTryOn tq w) = Inl (Error (tryOnFailureMessage rt))" by blast
next
  assume a: "\<forall>q. avatar_server w q = Response ra" "\<not> ok ra"
    and b: "requests (snd (generateAvatar aq w)) \<noteq> requests w"
  from generateAvatar_not_ok[OF a, of aq] b
  show "fst (generateAvatar aq w) = Inl (Error (avatarErrorMessage ra))" by blast
next
  assume a: "\<forall>q. video_server w q = Response rv" "\<not> ok rv"
    and b: "requests (snd (generateVideoLoop vq w)) \<noteq> requests w"
  from generateVideoLoop_not_ok[OF a, of vq] b
  show "fst (generateVideoLoop vq w) = Inl (Error (videoErrorMessage rv))" by blast
next
  assume a: "error_body r = Some e" "detail e = DetailArray es"
  show "tryOnFailureMessage r
          = join ''; '' (map (\<lambda>v. js_or (map_option (join ''.'') (loc v)) ''unknown'' @ '': ''
                                   @ js_or (msg v) ''unknown error'') es)"
    using a by (simp add: tryOnFailureMessage_def tryOnErrorMessage_def tryOnEntryText_def Let_def cong: map_cong)
  show "avatarErrorMessage r
          = join ''; '' (map (\<lambda>v. js_or (map_option (join ''.'') (loc v)) ''field'' @ '': ''
                                   @ (case msg v of None \<Rightarrow> ''undefined'' | Some m \<Rightarrow> m)) es)"
  proof -
    have "avatarEntryText = (\<lambda>v. js_or (map_option (join ''.'') (loc v)) ''field'' @ '': ''
                                   @ (case msg v of None \<Rightarrow> ''undefined'' | Some m \<Rightarrow> m))"
      by (rule ext) (simp add: avatarEntryText_def js_or_def split: option.splits)
    then show ?thesis using a by (simp add: avatarErrorMessage_def)
  qed
next
  assume a: "error_body r = Some e" "detail e = DetailArray es"
    and wf: "\<forall>v \<in> set es. \<exists>p m. loc v = Some p \<and> msg v = Some m \<and> join ''.'' p \<noteq> [] \<and> m \<noteq> []"
  have sp: "spec_message r
      = Some (join ''; '' (map (\<lambda>v. join ''.'' (case loc v of None \<Rightarrow> [] | Some p \<Rightarrow> p) @ '': ''
                       @ (case msg v of None \<Rightarrow> [] | Some m \<Rightarrow> m)) es))"
    using a by (simp add: spec_message_def)
  have t: "tryOnFailureMessage r = join ''; '' (map tryOnEntryText es)"
    using a by (simp add: tryOnFailureMessage_def tryOnErrorMessage_def)
  have av: "avatarErrorMessage r = join ''; '' (map avatarEntryText es)"
    using a by (simp add: avatarErrorMessage_def)
  show "spec_message r = Some (tryOnFailureMessage r)"
    unfolding sp t wellformed_entries(1)[OF wf] by (rule refl)
  show "spec_message r = Some (avatarErrorMessage r)"
    unfolding sp av wellformed_entries(2)[OF wf] by (rule refl)
next
  assume a: "error_body r = Some e" "detail e = DetailString d"
  show "tryOnFailureMessage r = d" "avatarErrorMessage r = d" "videoErrorMessage r = d" "spec_message r = Some d"
    using a by (simp_all add: tryOnFailureMessage_def tryOnErrorMessage_def avatarErrorMessage_def
        videoErrorMessage_def spec_message_def)
next
  assume a: "error_body r = None"
  show "tryOnFailureMessage r = ''Server error: '' @ show_nat (status r) @ '' '' @ statusText r"
    "avatarErrorMessage r = statusText r" "videoErrorMessage r = statusText r"
    using a by (simp_all add: tryOnFailureMessage_def avatarErrorMessage_def videoErrorMessage_def)
qed

text \<open>
  The claim as first stated fails: for a body that does not parse no call gives
  \<^verbatim>\<open><status code> <status text>\<close>, and for the validation error of the example the
  video-loop call gives the message without the field path.
\<close>

theorem error_message_counterexample:
  "spec_message (resp500 :: TryOnResponse response) = Some ''500 Internal Server Error''
   \<and> fst (generateTryOn tryOnRq (offline\<lparr>tryon_server := (\<lambda>_. Response resp500)\<rparr>))
       = Inl (Error ''Server error: 500 Internal Server Error'')
   \<and> fst (generateAvatar avatarRq (offline\<lparr>avatar_server := (\<lambda>_. Response resp500)\<rparr>))
       = Inl (Error ''Internal Server Error'')
   \<and> spec_message (resp422 :: VideoLoopResponse response) = Some ''clothes: too short''
   \<and> fst (generateVideoLoop videoRq (offline\<lparr>video_server := (\<lambda>_. Response resp422)\<rparr>))
       = Inl (Error ''too short'')"
  by (simp add: spec_500 spec_422 tryon_500 avatar_500 video_422)

theorem error_message_normalisation_witness:
  "(\<forall>q. tryon_server (offline\<lparr>tryon_server := (\<lambda>_. Response resp422)\<rparr>) q = Response resp422)
   \<and> \<not> ok (resp422 :: TryOnResponse response)
   \<and> requests (snd (generateTryOn tryOnRq (offline\<lparr>tryon_server := (\<lambda>_. Response resp422)\<rparr>)))
       \<noteq> requests (offline\<lparr>tryon_server := (\<lambda>_. Response resp422)\<rparr>)
   \<and> fst (generateTryOn tryOnRq (offline\<lparr>tryon_server := (\<lambda>_. Response resp422)\<rparr>))
       = Inl (Error (tryOnFailureMessage (resp422 :: TryOnResponse response)))
   \<and> tryOnFailureMessage (resp422 :: TryOnResponse response) = ''clothes: too short''
   \<and> spec_message (resp422 :: TryOnResponse response) = Some ''clothes: too short''
   \<and> avatarErrorMessage (resp422 :: TryOnResponse response) = ''clothes: too short''
   \<and> error_body (resp500 :: TryOnResponse response) = None
   \<and> tryOnFailureMessage (resp500 :: TryOnResponse response) = ''Server error: 500 Internal Server Error''"
proof -
  let ?w = "offline\<lparr>tryon_server := (\<lambda>_. Response resp422)\<rparr>"
  let ?r = "resp422 :: TryOnResponse response"
  let ?v = "\<lparr>loc = Some [''clothes''], msg = Some ''too short'',
            json_text = ''{\"loc\":[\"clothes\"],\"msg\":\"too short\"}''\<rparr>"
  have t: "\<forall>q. tryon_server ?w q = Response resp422" by simp
  have n: "\<not> ok ?r" by (simp add: ok_def resp422_def)
  have q: "requests (snd (generateTryOn tryOnRq ?w)) \<noteq> requests ?w"
    by (simp add: tryon_422) (simp add: offline_def)
  note g = error_message_normalisation[of ?w ?r tryOnRq resp422 avatarRq resp422 videoRq ?r
      "\<lparr>detail = DetailArray [?v], message = Absent\<rparr>" "[?v]" "''x''"]
  note h = error_message_normalisation[of ?w ?r tryOnRq resp422 avatarRq resp422 videoRq "resp500 :: TryOnResponse response"]
  have e: "error_body ?r = Some \<lparr>detail = DetailArray [?v], message = Absent\<rparr>"
    by (simp add: resp422_def)
  have wf: "\<forall>v \<in> set [?v]. \<exists>p m. loc v = Some p \<and> msg v = Some m \<and> join ''.'' p \<noteq> [] \<and> m \<noteq> []"
    by simp
  from g t n q have c1: "fst (generateTryOn tryOnRq ?w) = Inl (Error (tryOnFailureMessage ?r))" by blast
  have d: "detail \<lparr>detail = DetailArray [?v], message = Absent\<rparr> = DetailArray [?v]" by simp
  from g e d wf have c2: "spec_message ?r = Some (tryOnFailureMessage ?r)" "spec_message ?r = Some (avatarErrorMessage ?r)"
    by blast+
  have s: "spec_message ?r = Some ''clothes: too short''" by (rule spec_422)
  have m1: "tryOnFailureMessage ?r = ''clothes: too short''" using c2(1) s by simp
  have m2: "avatarErrorMessage ?r = ''clothes: too short''" using c2(2) s by simp
  have e5: "error_body (resp500 :: TryOnResponse response) = None" by (simp add: resp500_def)
  from h e5 have "tryOnFailureMessage (resp500 :: TryOnResponse response)
      = ''Server error: '' @ show_nat (status (resp500 :: TryOnResponse response)) @ '' '' @ statusText (resp500 :: TryOnResponse response)"
    by blast
  then have m5: "tryOnFailureMessage (resp500 :: TryOnResponse response) = ''Server error: 500 Internal Server Error''"
    by (simp add: resp500_def js_defs)
  from t n q c1 m1 s m2 e5 m5 show ?thesis by blast
qed

subsection \<open>Empty inputs fail before anything is sent\<close>

lemma base64ToTempFile_empty:
  "base64ToTempFile [] f w = (Inl (Error (''Invalid base64 data for '' @ f)), w)"
  by (simp add: base64ToTempFile_def io_throw_def)

text \<open>
  C6. A try-on call with an empty garment list or an empty avatar throws its validation
  error at once and leaves the device as it was: no request is sent and no file is
  written. The avatar call with an empty selfie or posture and the video-loop call with
  an empty image also throw before any request is sent.
\<close>

theorem empty_input_fails_locally:
  "(avatar_b64 tq = [] \<or> clothes_b64 tq = [] \<longrightarrow>
      generateTryOn tq w
        = (Inl (Error (if avatar_b64 tq = [] then ''Avatar image is required''
                       else ''At least one clothing item is required'')), w))
   \<and> (selfie_b64 aq = [] \<longrightarrow>
      generateAvatar aq w
        = (Inl (Error (''Invalid base64 data for selfie_'' @ show_nat (clock w) @ ''.png'')), w))
   \<and> (posture_b64 aq = [] \<longrightarrow>
      isl (fst (generateAvatar aq w)) \<and> requests (snd (generateAvatar aq w)) = requests w)
   \<and> (vq_image_b64 vq = [] \<longrightarrow>
      generateVideoLoop vq w
        = (Inl (Error (''Invalid base64 data for image_'' @ show_nat (clock w) @ ''.png'')), w))"
proof (intro conjI impI)
  show "generateTryOn tq w
        = (Inl (Error (if avatar_b64 tq = [] then ''Avatar image is required''
                       else ''At least one clothing item is required'')), w)"
    if "avatar_b64 tq = [] \<or> clothes_b64 tq = []"
    using that by (auto simp: generateTryOn_def io_throw_def)
  show "generateAvatar aq w
        = (Inl (Error (''Invalid base64 data for selfie_'' @ show_nat (clock w) @ ''.png'')), w)"
    if "selfie_b64 aq = []"
    using that by (simp add: generateAvatar_def io_bind_def Date_now_def base64ToTempFile_empty)
  show "generateVideoLoop vq w
        = (Inl (Error (''Invalid base64 data for image_'' @ show_nat (clock w) @ ''.png'')), w)"
    if "vq_image_b64 vq = []"
    using that by (simp add: generateVideoLoop_def io_bind_def Date_now_def base64ToTempFile_empty)
  assume p: "posture_b64 aq = []"
  obtain r1 w1 where s: "base64ToTempFile (selfie_b64 aq) (''selfie_'' @ show_nat (clock w) @ ''.png'') w = (r1, w1)"
    by (cases "base64ToTempFile (selfie_b64 aq) (''selfie_'' @ show_nat (clock w) @ ''.png'') w")
  have f: "fs_only w w1" by (rule local_ioD[OF local_base64ToTempFile s])
  then have rq: "requests w1 = requests w" by (simp add: fs_only_def)
  have "isl (fst (generateAvatar aq w)) \<and> requests (snd (generateAvatar aq w)) = requests w"
    using s p rq
    by (cases r1) (simp_all add: generateAvatar_def io_bind_def Date_now_def base64ToTempFile_empty)
  then show "isl (fst (generateAvatar aq w))" "requests (snd (generateAvatar aq w)) = requests w"
    by simp_all
qed

theorem empty_input_fails_locally_witness:
  "clothes_b64 (tryOnRq\<lparr>clothes_b64 := []\<rparr>) = []
   \<and> generateTryOn (tryOnRq\<lparr>clothes_b64 := []\<rparr>) offline
       = (Inl (Error ''At least one clothing item is required''), offline)
   \<and> avatar_b64 (tryOnRq\<lparr>avatar_b64 := []\<rparr>) = []
   \<and> generateTryOn (tryOnRq\<lparr>avatar_b64 := []\<rparr>) offline
       = (Inl (Error ''Avatar image is required''), offline)
   \<and> selfie_b64 (avatarRq\<lparr>selfie_b64 := []\<rparr>) = []
   \<and> generateAvatar (avatarRq\<lparr>selfie_b64 := []\<rparr>) offline
       = (Inl (Error ''Invalid base64 data for selfie_0.png''), offline)
   \<and> posture_b64 (avatarRq\<lparr>posture_b64 := []\<rparr>) = []
   \<and> isl (fst (generateAvatar (avatarRq\<lparr>posture_b64 := []\<rparr>) offline))
   \<and> requests (snd (generateAvatar (avatarRq\<lparr>posture_b64 := []\<rparr>) offline)) = []
   \<and> vq_image_b64 (videoRq\<lparr>vq_image_b64 := []\<rparr>) = []
   \<and> generateVideoLoop (videoRq\<lparr>vq_image_b64 := []\<rparr>) offline
       = (Inl (Error ''Invalid base64 data for image_0.png''), offline)"
proof -
  have c: "clock offline = 0" "requests offline = []" by (simp_all add: offline_def)
  have n: "show_nat 0 = ''0''" by (simp add: js_defs)
  have a: "avatar_b64 (tryOnRq\<lparr>clothes_b64 := []\<rparr>) \<noteq> []" by (simp add: tryOnRq_def)
  note t1 = empty_input_fails_locally[of "tryOnRq\<lparr>clothes_b64 := []\<rparr>" offline "avatarRq\<lparr>selfie_b64 := []\<rparr>"
      "videoRq\<lparr>vq_image_b64 := []\<rparr>"]
  note t2 = empty_input_fails_locally[of "tryOnRq\<lparr>avatar_b64 := []\<rparr>" offline "avatarRq\<lparr>posture_b64 := []\<rparr>"
      "videoRq\<lparr>vq_image_b64 := []\<rparr>"]
  show ?thesis using t1 t2 a by (simp add: c n)
qed

subsection \<open>The temporary download\<close>

text \<open>
  A remote URL is downloaded to a temporary file in the cache. When the download is
  answered with a status other than 200 the call throws with the file still in place;
  when it is answered with 200 the file is read and deleted.
\<close>

lemma imageUriToBase64_failed_download:
  assumes "\<not> startsWith ''data:'' uri" "\<not> startsWith ''file://'' uri" "\<not> startsWith ''/'' uri"
    and "\<not> unwritable w (template_null (cacheDirectory w) @ ''temp_'' @ show_nat (clock w) @ ''.png'')"
    and "remote_files w uri = Downloaded st body" "st \<noteq> 200"
  shows "imageUriToBase64 uri w
           = (Inl (Error (''Failed to convert image: Failed to download image: '' @ show_nat st)),
              w\<lparr>downloads := downloads w @ [uri],
                files := (files w)(template_null (cacheDirectory w) @ ''temp_'' @ show_nat (clock w) @ ''.png''
                                   \<mapsto> body)\<rparr>)"
  using assms by (simp add: imageUriToBase64_def io_defs Let_def)

lemma imageUriToBase64_download_ok:
  assumes "\<not> startsWith ''data:'' uri" "\<not> startsWith ''file://'' uri" "\<not> startsWith ''/'' uri"
    and "\<not> unwritable w (template_null (cacheDirectory w) @ ''temp_'' @ show_nat (clock w) @ ''.png'')"
    and "remote_files w uri = Downloaded 200 body"
  shows "imageUriToBase64 uri w
           = (Inr body,
              w\<lparr>downloads := downloads w @ [uri],
                files := (files w)(template_null (cacheDirectory w) @ ''temp_'' @ show_nat (clock w) @ ''.png''
                                   := None)\<rparr>)"
  using assms by (simp add: imageUriToBase64_def io_defs Let_def)

text \<open>
  C9, evaluated. Encoding a remote URL whose download is answered with status 404 throws
  and leaves the temporary file in the cache; the same call on a download answered with
  status 200 returns the encoding and has deleted the file.
\<close>

theorem temp_file_left_behind:
  "fst (imageUriToBase64 ''http://cdn/a.png'' cdn404)
     = Inl (Error ''Failed to convert image: Failed to download image: 404'')
   \<and> files (snd (imageUriToBase64 ''http://cdn/a.png'' cdn404)) ''/c/temp_0.png'' = Some ''PGh0bWw+''
   \<and> fst (imageUriToBase64 ''http://cdn/a.png'' cdn200) = Inr ''QUJD''
   \<and> files (snd (imageUriToBase64 ''http://cdn/a.png'' cdn200)) ''/c/temp_0.png'' = None"
  by (simp add: api_defs io_defs js_defs cdn404_def cdn200_def offline_def Let_def)

section \<open>Properties of the generation pipeline\<close>

lemma local_gatherInputs [simp]: "local_io (gatherInputs a)"
proof (cases "find (\<lambda>x. ai_id x = screen_selectedAvatarId a) (screen_avatars a)")
  case None
  then show ?thesis by (simp add: gatherInputs_def)
next
  case (Some av)
  have "local_io (io_all (map (\<lambda>item. imageUriToBase64 (d_image item)) xs))" for xs :: "DisplayItem list"
    by (rule local_all) auto
  then show ?thesis
    unfolding gatherInputs_def Some Let_def option.case
    by (intro local_bind) simp_all
qed

lemma handleGenerate_failure:
  assumes "canGenerate a" "\<not> isGenerating a" "pipeline a (device a) = (Inl e, w)"
  shows "handleGenerate a
           = a\<lparr>device := w, console_errors := console_errors a @ [e],
               alerts := alerts a @ [(''Error'', ''Failed to generate result. Please try again.'')],
               translateY := SNAP_TOP, isGenerating := False\<rparr>"
  using assms by (simp add: handleGenerate_def Let_def)

lemma pipeline_tryon_fails:
  assumes "gatherInputs a w0 = (Inr rq, w1)" "generateTryOn rq w1 = (Inl e, w2)"
  shows "pipeline a w0 = (Inl e, w2)"
  using assms by (simp add: pipeline_def io_bind_def)

lemma pipeline_video_fails:
  assumes "generationMode a = media_video" "gatherInputs a w0 = (Inr rq, w1)"
    "generateTryOn rq w1 = (Inr tr, w2)" "videoStep tr w2 = (Inl e, w3)"
  shows "pipeline a w0 = (Inl e, w3)"
  using assms by (simp add: pipeline_def io_bind_def)

lemma video_calls_fs_only: "fs_only w w' \<Longrightarrow> video_calls w' = video_calls w"
  by (simp add: fs_only_def video_calls_def)

lemma video_calls_generateTryOn:
  assumes "generateTryOn rq w = (res, w')"
  shows "video_calls w' = video_calls w"
  using generateTryOn_cases[OF assms]
  by (auto simp: video_calls_fs_only) (simp add: video_calls_def sent_def tryon_request_def fs_only_def)

lemmas app_defs = exampleApp_def tryOnFailsApp_def videoFailsApp_def okTryOn_def
lemmas screen_defs = gatherInputs_def find_selected_def canGenerate_def List.map_filter_def

lemma gather_example:
  "gatherInputs (exampleApp\<lparr>device := w\<rparr>) w = (Inr tryOnRq, w)"
  by (simp add: screen_defs app_defs api_defs io_defs js_defs tryOnRq_def)

lemma tryOnFails_run:
  "generateTryOn tryOnRq (device tryOnFailsApp)
     = (Inl (Error ''clothes: too short''),
        offline\<lparr>tryon_server := (\<lambda>_. Response resp422),
                files := [''/c/avatar_0.png'' \<mapsto> ''QUJD'', ''/c/cloth_0_0.png'' \<mapsto> ''REVG''],
                requests := [\<lparr>url = ''http://api/generate/tryon'',
                              headers = [(''api-key'', ''openvto-dev'')],
                              form = [(''avatar'', FilePart ''file:///c/avatar_0.png'' ''image/png'' ''avatar.png''),
                                      (''clothes'', FilePart ''file:///c/cloth_0_0.png'' ''image/png'' ''cloth_0.png''),
                                      (''compose'', Field ''true'')]\<rparr>]\<rparr>)"
  using tryon_422 by (simp add: tryOnFailsApp_def exampleApp_def)

lemma videoFails_tryon:
  "generateTryOn tryOnRq (device videoFailsApp)
     = (Inr \<lparr>tr_image_b64 = ''R0hJ'', clothing_composite_b64 = None, tr_meta = None\<rparr>, afterTryOn)"
  by (simp add: api_defs io_defs js_defs example_defs app_defs afterTryOn_def Let_def)

lemma videoFails_video:
  "generateVideoLoop \<lparr>vq_image_b64 = ''R0hJ'', vq_mode = Some ''360'', vq_seconds = None, vq_seed = None\<rparr>
     afterTryOn = (Inl (Error ''Internal Server Error''), afterVideo)"
  by (simp add: api_defs io_defs js_defs example_defs app_defs afterTryOn_def afterVideo_def Let_def)

lemma videoFails_step:
  "videoStep \<lparr>tr_image_b64 = ''R0hJ'', clothing_composite_b64 = None, tr_meta = None\<rparr> afterTryOn
     = (Inl (Error ''Internal Server Error''), afterVideo)"
  by (simp add: videoStep_def io_bind_def videoFails_video)

lemma videoFails_facts:
  "canGenerate videoFailsApp" "\<not> isGenerating videoFailsApp" "generationMode videoFailsApp = media_video"
  "gatherInputs videoFailsApp (device videoFailsApp) = (Inr tryOnRq, device videoFailsApp)"
  "console_errors videoFailsApp = []" "alerts videoFailsApp = []" "resultUri videoFailsApp = None"
  "store videoFailsApp = initialState"
proof -
  show "gatherInputs videoFailsApp (device videoFailsApp) = (Inr tryOnRq, device videoFailsApp)"
    using gather_example[of "offline\<lparr>tryon_server := (\<lambda>_. Response okTryOn),
                                   video_server := (\<lambda>_. Response resp500)\<rparr>"]
    by (simp add: videoFailsApp_def exampleApp_def)
qed (simp_all add: canGenerate_def videoFailsApp_def exampleApp_def)

lemma videoFails_pipeline:
  "pipeline videoFailsApp (device videoFailsApp) = (Inl (Error ''Internal Server Error''), afterVideo)"
  by (rule pipeline_video_fails[OF videoFails_facts(3,4) videoFails_tryon videoFails_step])

subsection \<open>A failed try-on ends the run\<close>

text \<open>
  C3. In a run of \<^verbatim>\<open>handleGenerate\<close> whose try-on call fails, no request goes to the
  video-loop endpoint: the number of such requests is what it was before the run. The
  failure is reported: the try-on call's error is written with \<^verbatim>\<open>console.error\<close> and
  the error alert is shown. Nothing is committed to the result or to the store.
\<close>

theorem tryon_failure_stops_pipeline:
  assumes "canGenerate a" "\<not> isGenerating a"
    and "gatherInputs a (device a) = (Inr rq, w1)"
    and "generateTryOn rq w1 = (Inl e, w2)"
  shows "video_calls (device (handleGenerate a)) = video_calls (device a)
       \<and> console_errors (handleGenerate a) = console_errors a @ [e]
       \<and> alerts (handleGenerate a)
           = alerts a @ [(''Error'', ''Failed to generate result. Please try again.'')]
       \<and> translateY (handleGenerate a) = SNAP_TOP
       \<and> \<not> isGenerating (handleGenerate a)
       \<and> resultUri (handleGenerate a) = resultUri a
       \<and> store (handleGenerate a) = store a"
proof -
  have p: "pipeline a (device a) = (Inl e, w2)"
    by (rule pipeline_tryon_fails[OF assms(3,4)])
  have h: "handleGenerate a
           = a\<lparr>device := w2, console_errors := console_errors a @ [e],
               alerts := alerts a @ [(''Error'', ''Failed to generate result. Please try again.'')],
               translateY := SNAP_TOP, isGenerating := False\<rparr>"
    by (rule handleGenerate_failure[OF assms(1,2) p])
  have "fs_only (device a) w1" by (rule local_ioD[OF local_gatherInputs assms(3)])
  then have "video_calls w1 = video_calls (device a)" by (rule video_calls_fs_only)
  moreover have "video_calls w2 = video_calls w1" by (rule video_calls_generateTryOn[OF assms(4)])
  ultimately show ?thesis by (simp add: h)
qed

theorem tryon_failure_stops_pipeline_witness:
  "canGenerate tryOnFailsApp \<and> \<not> isGenerating tryOnFailsApp
   \<and> gatherInputs tryOnFailsApp (device tryOnFailsApp) = (Inr tryOnRq, device tryOnFailsApp)
   \<and> fst (generateTryOn tryOnRq (device tryOnFailsApp)) = Inl (Error ''clothes: too short'')
   \<and> video_calls (device (handleGenerate tryOnFailsApp)) = 0
   \<and> console_errors (handleGenerate tryOnFailsApp) = [Error ''clothes: too short'']
   \<and> alerts (handleGenerate tryOnFailsApp)
       = [(''Error'', ''Failed to generate result. Please try again.'')]
   \<and> resultUri (handleGenerate tryOnFailsApp) = None
   \<and> generationHistory (store (handleGenerate tryOnFailsApp)) = []"
proof -
  have c: "canGenerate tryOnFailsApp" "\<not> isGenerating tryOnFailsApp"
    by (simp_all add: canGenerate_def tryOnFailsApp_def exampleApp_def)
  have g: "gatherInputs tryOnFailsApp (device tryOnFailsApp) = (Inr tryOnRq, device tryOnFailsApp)"
    using gather_example[of "offline\<lparr>tryon_server := (\<lambda>_. Response resp422)\<rparr>"]
    by (simp add: tryOnFailsApp_def exampleApp_def)
  note t = tryon_failure_stops_pipeline[OF c g tryOnFails_run]
  have i: "video_calls (device tryOnFailsApp) = 0" "console_errors tryOnFailsApp = []"
    "alerts tryOnFailsApp = []" "resultUri tryOnFailsApp = None"
    "generationHistory (store tryOnFailsApp) = []"
    by (simp_all add: video_calls_def tryOnFailsApp_def exampleApp_def offline_def initialState_def)
  show ?thesis using c g t i by (simp add: tryOnFails_run)
qed

subsection \<open>A failed video step after a successful try-on\<close>

text \<open>
  C4, as amended. In a run in video mode whose try-on call succeeds and whose video step
  fails, the failure is reported (the video step's error is written with
  \<^verbatim>\<open>console.error\<close> and the error alert is shown) and nothing is committed: the
  displayed result, its type and the whole store, history included, are as before the
  run. The try-on image is not kept.
\<close>

theorem video_failure_commits_nothing:
  assumes "canGenerate a" "\<not> isGenerating a" "generationMode a = media_video"
    and "gatherInputs a (device a) = (Inr rq, w1)"
    and "generateTryOn rq w1 = (Inr tr, w2)"
    and "videoStep tr w2 = (Inl e, w3)"
  shows "console_errors (handleGenerate a) = console_errors a @ [e]
       \<and> alerts (handleGenerate a)
           = alerts a @ [(''Error'', ''Failed to generate result. Please try again.'')]
       \<and> translateY (handleGenerate a) = SNAP_TOP
       \<and> \<not> isGenerating (handleGenerate a)
       \<and> resultUri (handleGenerate a) = resultUri a
       \<and> resultType (handleGenerate a) = resultType a
       \<and> store (handleGenerate a) = store a
       \<and> device (handleGenerate a) = w3"
proof -
  have p: "pipeline a (device a) = (Inl e, w3)"
    by (rule pipeline_video_fails[OF assms(3-6)])
  show ?thesis
    by (simp add: handleGenerate_failure[OF assms(1,2) p])
qed

text \<open>
  The claim as first stated fails: on the example screen the try-on call succeeds and
  the video call is answered with status 500; after the run there is no displayed
  result, no try-on artifact in the store and no history item.
\<close>

theorem video_failure_counterexample:
  "generationMode videoFailsApp = media_video
   \<and> fst (generateTryOn tryOnRq (device videoFailsApp))
       = Inr \<lparr>tr_image_b64 = ''R0hJ'', clothing_composite_b64 = None, tr_meta = None\<rparr>
   \<and> map url (requests (device (handleGenerate videoFailsApp)))
       = [''http://api/generate/tryon'', ''http://api/generate/videoloop'']
   \<and> console_errors (handleGenerate videoFailsApp) = [Error ''Internal Server Error'']
   \<and> resultUri (handleGenerate videoFailsApp) = None
   \<and> tryOnResults (store (handleGenerate videoFailsApp)) = []
   \<and> generationHistory (store (handleGenerate videoFailsApp)) = []"
  by (simp add: handleGenerate_failure[OF videoFails_facts(1,2) videoFails_pipeline]
      videoFails_facts videoFails_tryon initialState_def)
    (simp add: afterVideo_def afterTryOn_def)

theorem video_failure_commits_nothing_witness:
  "canGenerate videoFailsApp \<and> \<not> isGenerating videoFailsApp
   \<and> generationMode videoFailsApp = media_video
   \<and> gatherInputs videoFailsApp (device videoFailsApp) = (Inr tryOnRq, device videoFailsApp)
   \<and> generateTryOn tryOnRq (device videoFailsApp)
       = (Inr \<lparr>tr_image_b64 = ''R0hJ'', clothing_composite_b64 = None, tr_meta = None\<rparr>, afterTryOn)
   \<and> videoStep \<lparr>tr_image_b64 = ''R0hJ'', clothing_composite_b64 = None, tr_meta = None\<rparr> afterTryOn
       = (Inl (Error ''Internal Server Error''), afterVideo)
   \<and> console_errors (handleGenerate videoFailsApp) = [Error ''Internal Server Error'']
   \<and> alerts (handleGenerate videoFailsApp)
       = [(''Error'', ''Failed to generate result. Please try again.'')]
   \<and> resultUri (handleGenerate videoFailsApp) = None
   \<and> store (handleGenerate videoFailsApp) = initialState
   \<and> device (handleGenerate videoFailsApp) = afterVideo"
  using video_failure_commits_nothing[OF videoFails_facts(1-4) videoFails_tryon videoFails_step]
  by (simp add: videoFails_facts videoFails_tryon videoFails_step)

end
